theory Spec2Isabelle
  imports Complex_Main
begin

section \<open>Python values used by the factory\<close>

text \<open>
  The exceptions the factory can raise, either by an explicit \<^verbatim>\<open>raise\<close>
  (\<open>RuntimeError\<close>, carrying its message), by \<^verbatim>\<open>assert False\<close>, or by a
  builtin applied to a value it does not accept.
\<close>

datatype error =
    RuntimeError string
  | AssertionError string
  | TypeError
  | AttributeError
  | KeyError string
  | StopIteration
  | ExternalError string

text \<open>
  A Python \<^verbatim>\<open>dict\<close> with string keys is an association list in insertion order,
  its keys distinct. \<open>dict_set\<close> is \<^verbatim>\<open>d[k] = v\<close>: an existing key keeps its place
  and takes the new value, a new key goes to the end.
\<close>

type_synonym 'v dict = "(string \<times> 'v) list"

fun dict_set :: "'v dict \<Rightarrow> string \<Rightarrow> 'v \<Rightarrow> 'v dict" where
  "dict_set [] k v = [(k, v)]"
| "dict_set ((k', v') # d) k v =
     (if k' = k then (k', v) # d else (k', v') # dict_set d k v)"

definition dict_get :: "'v dict \<Rightarrow> string \<Rightarrow> 'v option" where
  "dict_get d k = map_of d k"

definition dict_has :: "'v dict \<Rightarrow> string \<Rightarrow> bool" where
  "dict_has d k = (map_of d k \<noteq> None)"

text \<open>\<^verbatim>\<open>{f(k): v for k, v in d.items()}\<close> and \<^verbatim>\<open>dict(pairs)\<close>: the pairs are
  inserted from left to right.\<close>

definition dict_of_pairs :: "(string \<times> 'v) list \<Rightarrow> 'v dict" where
  "dict_of_pairs ps = foldl (\<lambda>d (k, v). dict_set d k v) [] ps"

text \<open>\<^verbatim>\<open>s.startswith(p)\<close>.\<close>

definition startswith :: "string \<Rightarrow> string \<Rightarrow> bool" where
  "startswith s p = (take (length p) s = p)"

section \<open>Checkpoints\<close>

text \<open>
  What \<^verbatim>\<open>torch.load\<close> hands back: a dict (an \<^verbatim>\<open>OrderedDict\<close> is one), whose
  values are tensors (of an abstract type \<open>'t\<close>), nested dicts or other objects.
\<close>

datatype 't pyobj =
    Tensor 't
  | Dict "(string \<times> 't pyobj) list"
  | OtherObj

text \<open>\<^verbatim>\<open>state_dict.items()\<close>: only a dict has it.\<close>

fun items :: "'t pyobj \<Rightarrow> error + (string \<times> 't pyobj) list" where
  "items (Dict d) = Inr d"
| "items _ = Inl AttributeError"

text \<open>
  \<^verbatim>\<open>load_state_dict\<close> (lines 79-87), after \<^verbatim>\<open>torch.load\<close> has produced
  \<open>checkpoint\<close>. \<^verbatim>\<open>next(iter(...))\<close> on an empty dict raises \<open>StopIteration\<close>.
\<close>

definition select_state_dict :: "'t pyobj \<Rightarrow> 't pyobj" where
  "select_state_dict checkpoint =
     (case checkpoint of
        Dict d \<Rightarrow> (case dict_get d ''state_dict'' of Some sd \<Rightarrow> sd | None \<Rightarrow> checkpoint)
      | _ \<Rightarrow> checkpoint)"

definition load_state_dict :: "'t pyobj \<Rightarrow> error + 't pyobj" where
  "load_state_dict checkpoint =
     (let state_dict = select_state_dict checkpoint in
      case items state_dict of
        Inl e \<Rightarrow> Inl e
      | Inr [] \<Rightarrow> Inl StopIteration
      | Inr ((k0, v0) # rest) \<Rightarrow>
          if startswith k0 ''module''
          then Inr (Dict (dict_of_pairs (map (\<lambda>(k, v). (drop 7 k, v)) ((k0, v0) # rest))))
          else Inr state_dict)"

section \<open>Model configs and the registry\<close>

text \<open>
  A model config is what \<^verbatim>\<open>json.load\<close> returns for a config file: a dict whose values
  are scalars, lists or dicts. The factory writes into the config dict itself and into the
  dicts directly under it (\<^verbatim>\<open>vision_cfg\<close>, \<^verbatim>\<open>text_cfg\<close>), so both levels are objects
  in a store and are referred to by address; what lies deeper is never written and is kept
  as a value. Numbers are carried around only, never computed with.
\<close>

datatype scalar = SNull | SBool bool | SNum real | SStr string

datatype json = Leaf scalar | JArr "json list" | JObj "(string \<times> json) list"

datatype val = VScalar scalar | VArr "json list" | Sub nat

text \<open>
  What the factory does that is visible from outside, recorded in the order it happens:
  \<open>EvResolveCfg\<close> is the log entry of line 120 (a config was found), \<open>EvLoadOpenAI\<close>
  the call of \<^verbatim>\<open>load_openai_model\<close> (lines 211-212), \<open>EvInstantiate\<close> the call of the
  constructor (lines 223 and 225), \<open>EvDownload\<close> the call of \<^verbatim>\<open>download_pretrained\<close>
  (line 236), \<open>EvLoadCheckpoint\<close> the call of \<^verbatim>\<open>load_checkpoint\<close> (lines 241-242),
  \<open>EvToDevice\<close> the call of \<^verbatim>\<open>model.to\<close> (line 255), \<open>EvConvertLP\<close> the call of
  \<^verbatim>\<open>convert_weights_to_lp\<close> (line 257), \<open>EvJit\<close> the call of \<^verbatim>\<open>torch.jit.script\<close>
  (line 264), \<open>EvImageTransform\<close> a call of \<^verbatim>\<open>image_transform\<close>. The other log
  entries are not recorded.
\<close>

datatype dtype = Float16 | BFloat16

datatype model_cls = CLIP | CustomTextCLIP | OpenAIModel

datatype event =
    EvResolveCfg string
  | EvLoadOpenAI string
  | EvInstantiate model_cls
  | EvDownload
  | EvLoadCheckpoint
  | EvToDevice string
  | EvConvertLP dtype
  | EvJit
  | EvImageTransform bool

text \<open>
  The state the factory runs in: the registry \<^verbatim>\<open>_MODEL_CONFIGS\<close> (model name to the
  address of its config dict), the config dicts (\<open>tops\<close>), the dicts nested in them
  (\<open>subs\<close>), and the trace of framework calls made so far. A new object gets the next
  free address, the length of its list.
\<close>

record world =
  registry :: "(string \<times> nat) list"
  tops :: "(string \<times> val) list list"
  subs :: "(string \<times> json) list list"
  trace :: "event list"

text \<open>A computation that may raise and may change the state; the state survives a
  raise, as it does in Python.\<close>

type_synonym 'a M = "world \<Rightarrow> (error + 'a) \<times> world"

definition ret :: "'a \<Rightarrow> 'a M" where
  "ret x = (\<lambda>w. (Inr x, w))"

definition raise :: "error \<Rightarrow> 'a M" where
  "raise e = (\<lambda>w. (Inl e, w))"

definition bnd :: "'a M \<Rightarrow> ('a \<Rightarrow> 'b M) \<Rightarrow> 'b M" where
  "bnd m f = (\<lambda>w. case m w of (Inl e, w') \<Rightarrow> (Inl e, w') | (Inr x, w') \<Rightarrow> f x w')"

definition lift :: "error + 'a \<Rightarrow> 'a M" where
  "lift r = (\<lambda>w. (r, w))"

definition emit :: "event \<Rightarrow> unit M" where
  "emit ev = (\<lambda>w. (Inr (), w\<lparr>trace := trace w @ [ev]\<rparr>))"

text \<open>Reading an object. Every address the factory holds is allocated; the empty dict
  for any other address keeps the functions total.\<close>

definition top_at :: "world \<Rightarrow> nat \<Rightarrow> (string \<times> val) list" where
  "top_at w a = (if a < length (tops w) then tops w ! a else [])"

definition sub_at :: "world \<Rightarrow> nat \<Rightarrow> (string \<times> json) list" where
  "sub_at w a = (if a < length (subs w) then subs w ! a else [])"

text \<open>The value of a config as the model constructors see it when it is unpacked.\<close>

definition val_json :: "world \<Rightarrow> val \<Rightarrow> json" where
  "val_json w v = (case v of VScalar s \<Rightarrow> Leaf s | VArr xs \<Rightarrow> JArr xs | Sub a \<Rightarrow> JObj (sub_at w a))"

definition cfg_value :: "world \<Rightarrow> nat \<Rightarrow> (string \<times> json) list" where
  "cfg_value w a = map (\<lambda>(k, v). (k, val_json w v)) (top_at w a)"

text \<open>The operations on the state: reading, allocating and overwriting an object, and
  looking a name up in the registry.\<close>

definition read_top :: "nat \<Rightarrow> (string \<times> val) list M" where
  "read_top a = (\<lambda>w. (Inr (top_at w a), w))"

definition read_sub :: "nat \<Rightarrow> (string \<times> json) list M" where
  "read_sub a = (\<lambda>w. (Inr (sub_at w a), w))"

definition read_cfg_value :: "nat \<Rightarrow> (string \<times> json) list M" where
  "read_cfg_value a = (\<lambda>w. (Inr (cfg_value w a), w))"

definition lookup_registry :: "string \<Rightarrow> nat option M" where
  "lookup_registry model_name = (\<lambda>w. (Inr (map_of (registry w) model_name), w))"

definition alloc_sub :: "(string \<times> json) list \<Rightarrow> nat M" where
  "alloc_sub d = (\<lambda>w. (Inr (length (subs w)), w\<lparr>subs := subs w @ [d]\<rparr>))"

definition alloc_top :: "(string \<times> val) list \<Rightarrow> nat M" where
  "alloc_top d = (\<lambda>w. (Inr (length (tops w)), w\<lparr>tops := tops w @ [d]\<rparr>))"

definition write_top :: "nat \<Rightarrow> (string \<times> val) list \<Rightarrow> unit M" where
  "write_top a d = (\<lambda>w. (Inr (), w\<lparr>tops := (tops w)[a := d]\<rparr>))"

definition write_sub :: "nat \<Rightarrow> (string \<times> json) list \<Rightarrow> unit M" where
  "write_sub a d = (\<lambda>w. (Inr (), w\<lparr>subs := (subs w)[a := d]\<rparr>))"

text \<open>
  \<^verbatim>\<open>deepcopy\<close> of a config dict: a new dict for the config and a new dict for every
  dict under it; a dict met twice is copied once (the memo of \<^verbatim>\<open>deepcopy\<close>).
\<close>

fun copy_entries ::
  "(nat \<times> nat) list \<Rightarrow> (string \<times> val) list \<Rightarrow> (string \<times> val) list M" where
  "copy_entries memo [] = ret []"
| "copy_entries memo ((k, Sub a) # es) =
     (case map_of memo a of
        Some b \<Rightarrow> bnd (copy_entries memo es) (\<lambda>es'. ret ((k, Sub b) # es'))
      | None \<Rightarrow>
          bnd (read_sub a) (\<lambda>d.
          bnd (alloc_sub d) (\<lambda>b.
          bnd (copy_entries ((a, b) # memo) es) (\<lambda>es'. ret ((k, Sub b) # es')))))"
| "copy_entries memo ((k, v) # es) =
     bnd (copy_entries memo es) (\<lambda>es'. ret ((k, v) # es'))"

definition deepcopy :: "nat \<Rightarrow> nat M" where
  "deepcopy a = bnd (read_top a) (\<lambda>d. bnd (copy_entries [] d) alloc_top)"

text \<open>\<^verbatim>\<open>get_model_config\<close> (lines 66-70).\<close>

definition get_model_config :: "string \<Rightarrow> nat option M" where
  "get_model_config model_name =
     bnd (lookup_registry model_name) (\<lambda>entry.
       case entry of
         Some a \<Rightarrow> bnd (deepcopy a) (\<lambda>c. ret (Some c))
       | None \<Rightarrow> ret None)"

text \<open>\<^verbatim>\<open>key in x\<close> for a config value \<open>x\<close>: a key test on a dict, an element test on a
  list, a substring test on a string, a \<open>TypeError\<close> on anything else.\<close>

fun contains :: "string \<Rightarrow> string \<Rightarrow> bool" where
  "contains [] p = (p = [])"
| "contains (c # s) p = (startswith (c # s) p \<or> contains s p)"

definition py_in :: "string \<Rightarrow> val \<Rightarrow> bool M" where
  "py_in k x =
     (case x of
        Sub a \<Rightarrow> bnd (read_sub a) (\<lambda>d. ret (dict_has d k))
      | VArr xs \<Rightarrow> ret (Leaf (SStr k) \<in> set xs)
      | VScalar (SStr s) \<Rightarrow> ret (contains s k)
      | VScalar _ \<Rightarrow> raise TypeError)"

text \<open>\<^verbatim>\<open>x[k]\<close>, \<^verbatim>\<open>x.get(k, dflt)\<close> and \<^verbatim>\<open>x[k] = v\<close> for a config value \<open>x\<close> and a
  string \<open>k\<close>; only a dict accepts them.\<close>

definition get_item :: "val \<Rightarrow> string \<Rightarrow> json M" where
  "get_item x k =
     (case x of
        Sub a \<Rightarrow> bnd (read_sub a) (\<lambda>d.
                   case dict_get d k of Some j \<Rightarrow> ret j | None \<Rightarrow> raise (KeyError k))
      | _ \<Rightarrow> raise TypeError)"

definition get_method :: "val \<Rightarrow> string \<Rightarrow> json \<Rightarrow> json M" where
  "get_method x k dflt =
     (case x of
        Sub a \<Rightarrow> bnd (read_sub a) (\<lambda>d.
                   case dict_get d k of Some j \<Rightarrow> ret j | None \<Rightarrow> ret dflt)
      | _ \<Rightarrow> raise AttributeError)"

definition set_item :: "val \<Rightarrow> string \<Rightarrow> json \<Rightarrow> unit M" where
  "set_item x k j =
     (case x of
        Sub a \<Rightarrow> bnd (read_sub a) (\<lambda>d. write_sub a (dict_set d k j))
      | _ \<Rightarrow> raise TypeError)"

text \<open>The same on the config dict itself, which is always a dict.\<close>

definition cfg_get_item :: "nat \<Rightarrow> string \<Rightarrow> val M" where
  "cfg_get_item c k =
     bnd (read_top c) (\<lambda>d. case dict_get d k of Some v \<Rightarrow> ret v | None \<Rightarrow> raise (KeyError k))"

definition cfg_set_item :: "nat \<Rightarrow> string \<Rightarrow> val \<Rightarrow> unit M" where
  "cfg_set_item c k v = bnd (read_top c) (\<lambda>d. write_top c (dict_set d k v))"

text \<open>\<^verbatim>\<open>model_cfg.get(k, {})\<close>: the default is a new empty dict.\<close>

definition cfg_get_or_empty :: "nat \<Rightarrow> string \<Rightarrow> val M" where
  "cfg_get_or_empty c k =
     bnd (read_top c) (\<lambda>d.
       case dict_get d k of
         Some v \<Rightarrow> ret v
       | None \<Rightarrow> bnd (alloc_sub []) (\<lambda>a. ret (Sub a)))"

text \<open>\<^verbatim>\<open>model_cfg.pop(k, False)\<close>.\<close>

definition cfg_pop :: "nat \<Rightarrow> string \<Rightarrow> val M" where
  "cfg_pop c k =
     bnd (read_top c) (\<lambda>d.
       case dict_get d k of
         Some v \<Rightarrow> bnd (write_top c (filter (\<lambda>(k', _). k' \<noteq> k) d)) (\<lambda>_. ret v)
       | None \<Rightarrow> ret (VScalar (SBool False)))"

text \<open>Truth value of a config value.\<close>

definition truthy :: "val \<Rightarrow> bool M" where
  "truthy v =
     (case v of
        VScalar SNull \<Rightarrow> ret False
      | VScalar (SBool b) \<Rightarrow> ret b
      | VScalar (SNum x) \<Rightarrow> ret (x \<noteq> 0)
      | VScalar (SStr s) \<Rightarrow> ret (s \<noteq> [])
      | VArr xs \<Rightarrow> ret (xs \<noteq> [])
      | Sub a \<Rightarrow> bnd (read_sub a) (\<lambda>d. ret (d \<noteq> [])))"

section \<open>Models and the framework\<close>

text \<open>
  A model as the factory sees it: its class, its image tower \<^verbatim>\<open>model.visual\<close> with the
  attributes the factory reads and writes (an attribute that is absent or \<^verbatim>\<open>None\<close> is
  \<open>Leaf SNull\<close>), and the state outside the image tower.
\<close>

record visual =
  v_state :: "(string \<times> nat pyobj) list"
  image_size :: json
  image_mean :: json
  image_std :: json

record model =
  cls :: model_cls
  visual :: visual
  state :: "(string \<times> nat pyobj) list"
  has_positional_embedding :: bool

datatype transform = Transform nat

datatype tokenizer = HFTokenizer json | Tokenize

text \<open>
  The functions the factory imports (\<^verbatim>\<open>.model\<close>, \<^verbatim>\<open>.openai\<close>, \<^verbatim>\<open>.pretrained\<close>,
  \<^verbatim>\<open>.transform\<close>, \<^verbatim>\<open>.constants\<close>, \<^verbatim>\<open>torch\<close>, \<^verbatim>\<open>os.path\<close>) are parameters;
  those that build or touch a model may raise. \<open>str_num\<close> is Python's \<^verbatim>\<open>str\<close> of a
  number, \<open>torch_device\<close> is \<^verbatim>\<open>torch.device\<close> applied to a string (the device it
  returns is known by its name), \<open>new_HFTokenizer\<close> is the constructor of the class
  \<^verbatim>\<open>HFTokenizer\<close>.
\<close>

record env =
  get_cast_dtype :: "string \<Rightarrow> dtype option"
  load_openai_model :: "string \<Rightarrow> string \<Rightarrow> string \<Rightarrow> bool \<Rightarrow> string option \<Rightarrow> error + model"
  new_CLIP :: "(string \<times> json) list \<Rightarrow> dtype option \<Rightarrow> error + model"
  new_CustomTextCLIP :: "(string \<times> json) list \<Rightarrow> dtype option \<Rightarrow> error + model"
  get_pretrained_cfg :: "string \<Rightarrow> string \<Rightarrow> (string \<times> json) list"
  is_pretrained_cfg :: "string \<Rightarrow> string \<Rightarrow> bool"
  list_pretrained_tags_by_model :: "string \<Rightarrow> string list"
  download_pretrained :: "(string \<times> json) list \<Rightarrow> string option \<Rightarrow> error + string"
  path_exists :: "string \<Rightarrow> bool"
  torch_load :: "string option \<Rightarrow> error + nat pyobj"
  convert_to_custom_text_state_dict ::
    "(string \<times> nat pyobj) list \<Rightarrow> error + (string \<times> nat pyobj) list"
  resize_pos_embed ::
    "(string \<times> nat pyobj) list \<Rightarrow> model \<Rightarrow> error + (string \<times> nat pyobj) list"
  visual_load_state_dict ::
    "visual \<Rightarrow> (string \<times> nat pyobj) list \<Rightarrow> bool \<Rightarrow> error + visual \<times> string list"
  model_load_state_dict ::
    "model \<Rightarrow> (string \<times> nat pyobj) list \<Rightarrow> bool \<Rightarrow> error + model \<times> string list"
  model_to :: "model \<Rightarrow> string \<Rightarrow> error + model"
  convert_weights_to_lp :: "model \<Rightarrow> dtype \<Rightarrow> error + model"
  jit_script :: "model \<Rightarrow> error + model"
  image_transform :: "json \<Rightarrow> bool \<Rightarrow> json \<Rightarrow> json \<Rightarrow> error + transform"
  OPENAI_DATASET_MEAN :: json
  OPENAI_DATASET_STD :: json
  str_num :: "real \<Rightarrow> string"
  torch_device :: "string \<Rightarrow> error + string"
  new_HFTokenizer :: "json \<Rightarrow> error + tokenizer"

section \<open>Tokenizer and config lookup\<close>

text \<open>\<^verbatim>\<open>get_tokenizer\<close> (lines 73-76). Subscripting \<^verbatim>\<open>None\<close> is a \<open>TypeError\<close>.
  The tokenizer returned is what the constructor of \<^verbatim>\<open>HFTokenizer\<close> builds from the
  name, when it builds one, or the function \<^verbatim>\<open>tokenize\<close>.\<close>

definition get_tokenizer :: "env \<Rightarrow> string \<Rightarrow> tokenizer M" where
  "get_tokenizer env model_name =
     bnd (get_model_config model_name) (\<lambda>config.
       case config of
         None \<Rightarrow> raise TypeError
       | Some c \<Rightarrow>
           bnd (cfg_get_item c ''text_cfg'') (\<lambda>text_cfg.
           bnd (py_in ''hf_tokenizer_name'' text_cfg) (\<lambda>has.
             if has
             then bnd (get_item text_cfg ''hf_tokenizer_name'') (\<lambda>n.
                    lift (new_HFTokenizer env n))
             else ret Tokenize)))"

text \<open>\<^verbatim>\<open>get_cfg_and_handle_error\<close> (lines 117-124). The \<^verbatim>\<open>logging.info\<close> of line 120
  is the event \<open>EvResolveCfg\<close>.\<close>

definition not_found_msg :: "string \<Rightarrow> string" where
  "not_found_msg model_name = ''Model config for '' @ model_name @ '' not found.''"

definition get_cfg_and_handle_error :: "string \<Rightarrow> nat M" where
  "get_cfg_and_handle_error model_name =
     bnd (get_model_config model_name) (\<lambda>model_cfg.
       case model_cfg of
         Some c \<Rightarrow> bnd (emit (EvResolveCfg model_name)) (\<lambda>_. ret c)
       | None \<Rightarrow> raise (RuntimeError (not_found_msg model_name)))"

text \<open>
  The same for the name read from \<^verbatim>\<open>vision_cfg\<close> (line 150), which is whatever the config
  file holds: a string is looked up, another scalar is in no registry, a list or a dict
  cannot be hashed.
\<close>

definition py_str :: "env \<Rightarrow> scalar \<Rightarrow> string" where
  "py_str env s =
     (case s of
        SNull \<Rightarrow> ''None''
      | SBool b \<Rightarrow> (if b then ''True'' else ''False'')
      | SNum x \<Rightarrow> str_num env x
      | SStr t \<Rightarrow> t)"

definition get_cfg_of_json :: "env \<Rightarrow> json \<Rightarrow> (string \<times> nat) M" where
  "get_cfg_of_json env name =
     (case name of
        Leaf (SStr s) \<Rightarrow> bnd (get_cfg_and_handle_error s) (\<lambda>c. ret (s, c))
      | Leaf sc \<Rightarrow> raise (RuntimeError (not_found_msg (py_str env sc)))
      | _ \<Rightarrow> raise TypeError)"

text \<open>
  \<^verbatim>\<open>load_and_prepare_cfg\<close> (lines 126-173). It returns the model name, the address of the
  prepared config, whether \<^verbatim>\<open>custom_text\<close> is true, and
  \<^verbatim>\<open>which_pretrained_image_tower\<close> (\<open>Leaf SNull\<close> for \<^verbatim>\<open>None\<close>).
  \<open>prepare_image_tower\<close> is lines 143-157, \<open>prepare_cfg\<close> lines 137-173, what follows
  the lookup of line 135.
\<close>

definition prepare_image_tower ::
  "env \<Rightarrow> string \<Rightarrow> nat \<Rightarrow> val \<Rightarrow> (string \<times> json) M" where
  "prepare_image_tower env model_name model_cfg vision_cfg =
     bnd (py_in ''timm_model_name'' vision_cfg) (\<lambda>timm.
       if timm
       then bnd (cfg_get_item model_cfg ''vision_cfg'') (\<lambda>v.
            bnd (set_item v ''timm_model_pretrained'' (Leaf (SBool True))) (\<lambda>_.
            ret (model_name, Leaf SNull)))
       else bnd (py_in ''model_name'' vision_cfg) (\<lambda>named.
         if named
         then bnd (get_method vision_cfg ''model_name'' (Leaf SNull)) (\<lambda>pretrained_image_model_name.
              bnd (get_cfg_of_json env pretrained_image_model_name) (\<lambda>(name', pretrained_image_model_cfg).
              bnd (get_method vision_cfg ''pretrained'' (Leaf (SStr ''openai''))) (\<lambda>which.
              bnd (cfg_get_item pretrained_image_model_cfg ''vision_cfg'') (\<lambda>pv.
              bnd (cfg_set_item model_cfg ''vision_cfg'' pv) (\<lambda>_.
              ret (name', which))))))
         else raise (AssertionError
                ''Unintended logic triggered, please debug or implement this block.'')))"

definition prepare_cfg ::
  "env \<Rightarrow> string \<Rightarrow> nat \<Rightarrow> bool \<Rightarrow> real option \<Rightarrow> bool \<Rightarrow> bool \<Rightarrow> bool
     \<Rightarrow> (string \<times> nat \<times> bool \<times> json) M" where
  "prepare_cfg env model_name model_cfg force_quick_gelu force_patch_dropout pretrained_image
       force_custom_text pretrained_hf =
     bnd (cfg_get_or_empty model_cfg ''vision_cfg'') (\<lambda>vision_cfg.
     bnd (if pretrained_image then ret True
          else bnd (py_in ''model_name'' vision_cfg) (\<lambda>a.
                 if a then ret True else py_in ''pretrained'' vision_cfg)) (\<lambda>pretrained_image'.
     bnd (if pretrained_image' then prepare_image_tower env model_name model_cfg vision_cfg
          else ret (model_name, Leaf SNull)) (\<lambda>(model_name', which_pretrained_image_tower).
     bnd (if force_quick_gelu
          then cfg_set_item model_cfg ''quick_gelu'' (VScalar (SBool True))
          else ret ()) (\<lambda>_.
     bnd (case force_patch_dropout of
            Some p \<Rightarrow> bnd (cfg_get_item model_cfg ''vision_cfg'') (\<lambda>v.
                        set_item v ''patch_dropout'' (Leaf (SNum p)))
          | None \<Rightarrow> ret ()) (\<lambda>_.
     bnd (cfg_pop model_cfg ''custom_text'') (\<lambda>popped.
     bnd (bnd (truthy popped) (\<lambda>t.
            if t \<or> force_custom_text then ret True
            else bnd (cfg_get_or_empty model_cfg ''text_cfg'') (py_in ''hf_model_name'')))
       (\<lambda>custom_text.
     bnd (if custom_text
          then bnd (bnd (cfg_get_or_empty model_cfg ''text_cfg'') (py_in ''hf_model_name'')) (\<lambda>hf.
                 if hf
                 then bnd (cfg_get_item model_cfg ''text_cfg'') (\<lambda>t.
                        set_item t ''hf_model_pretrained'' (Leaf (SBool pretrained_hf)))
                 else ret ())
          else ret ()) (\<lambda>_.
     ret (model_name', model_cfg, custom_text, which_pretrained_image_tower)))))))))"

definition load_and_prepare_cfg ::
  "env \<Rightarrow> string \<Rightarrow> bool \<Rightarrow> real option \<Rightarrow> bool \<Rightarrow> bool \<Rightarrow> bool
     \<Rightarrow> (string \<times> nat \<times> bool \<times> json) M" where
  "load_and_prepare_cfg env model_name force_quick_gelu force_patch_dropout pretrained_image
       force_custom_text pretrained_hf =
     bnd (get_cfg_and_handle_error model_name) (\<lambda>model_cfg.
       prepare_cfg env model_name model_cfg force_quick_gelu force_patch_dropout
         pretrained_image force_custom_text pretrained_hf)"

section \<open>Loading a checkpoint\<close>

text \<open>
  \<^verbatim>\<open>load_checkpoint\<close> (lines 90-115). The model is changed in place; here the changed
  model is returned beside the result. Lines 109-111 keep the entries whose key starts
  with \<open>visual\<close> and cut the first \<open>len("visual") + 1\<close> characters off each key.
\<close>

definition visual_entries :: "(string \<times> 'v) list \<Rightarrow> (string \<times> 'v) list" where
  "visual_entries state_dict =
     dict_of_pairs
       (map (\<lambda>i. (drop (length ''visual'' + 1) (fst i), snd i))
          (filter (\<lambda>i. startswith (fst i) ''visual'') state_dict))"

definition load_checkpoint ::
  "env \<Rightarrow> model \<Rightarrow> string option \<Rightarrow> bool \<Rightarrow> json \<Rightarrow> visual option
     \<Rightarrow> error + model \<times> string list option" where
  "load_checkpoint env m checkpoint_path strict which_pretrained_image_tower
       pretrained_image_tower =
     (case pretrained_image_tower of
        Some tower \<Rightarrow> Inr (m\<lparr>visual := tower\<rparr>, None)
      | None \<Rightarrow>
         (case torch_load env checkpoint_path of
            Inl e \<Rightarrow> Inl e
          | Inr checkpoint \<Rightarrow>
         (case load_state_dict checkpoint of
            Inl e \<Rightarrow> Inl e
          | Inr (Tensor _) \<Rightarrow> Inl AttributeError
          | Inr OtherObj \<Rightarrow> Inl AttributeError
          | Inr (Dict state_dict) \<Rightarrow>
         (case (if dict_has state_dict ''positional_embedding'' \<and> \<not> has_positional_embedding m
                then convert_to_custom_text_state_dict env state_dict
                else Inr state_dict) of
            Inl e \<Rightarrow> Inl e
          | Inr state_dict1 \<Rightarrow>
         (case resize_pos_embed env state_dict1 m of
            Inl e \<Rightarrow> Inl e
          | Inr state_dict2 \<Rightarrow>
             if which_pretrained_image_tower \<noteq> Leaf SNull
             then (case visual_load_state_dict env (visual m) (visual_entries state_dict2) strict of
                     Inl e \<Rightarrow> Inl e
                   | Inr (v, keys) \<Rightarrow> Inr (m\<lparr>visual := v\<rparr>, Some keys))
             else (case model_load_state_dict env m state_dict2 strict of
                     Inl e \<Rightarrow> Inl e
                   | Inr (m', keys) \<Rightarrow> Inr (m', Some keys)))))))"

section \<open>Creating a model\<close>

text \<open>\<^verbatim>\<open>model_name.replace('/', '-')\<close> and \<^verbatim>\<open>s.lower()\<close> (on ASCII letters).\<close>

definition replace_slash :: "string \<Rightarrow> string" where
  "replace_slash s = map (\<lambda>c. if c = CHR ''/'' then CHR ''-'' else c) s"

definition lower_char :: "char \<Rightarrow> char" where
  "lower_char c =
     (case map_of (zip ''ABCDEFGHIJKLMNOPQRSTUVWXYZ'' ''abcdefghijklmnopqrstuvwxyz'') c of
        Some l \<Rightarrow> l
      | None \<Rightarrow> c)"

definition lower :: "string \<Rightarrow> string" where
  "lower s = map lower_char s"

text \<open>Truth value of an optional string, of a JSON value, and \<^verbatim>\<open>a or b\<close>.\<close>

definition str_truthy :: "string option \<Rightarrow> bool" where
  "str_truthy s = (case s of None \<Rightarrow> False | Some t \<Rightarrow> t \<noteq> [])"

definition json_truthy :: "json \<Rightarrow> bool" where
  "json_truthy j =
     (case j of
        Leaf SNull \<Rightarrow> False
      | Leaf (SBool b) \<Rightarrow> b
      | Leaf (SNum x) \<Rightarrow> x \<noteq> 0
      | Leaf (SStr s) \<Rightarrow> s \<noteq> []
      | JArr xs \<Rightarrow> xs \<noteq> []
      | JObj d \<Rightarrow> d \<noteq> [])"

definition py_or :: "json \<Rightarrow> json \<Rightarrow> json" where
  "py_or a b = (if json_truthy a then a else b)"

text \<open>\<^verbatim>\<open>str(list_of_strings)\<close>, for tags without quotes or escapes.\<close>

fun join_comma :: "string list \<Rightarrow> string" where
  "join_comma [] = []"
| "join_comma [x] = x"
| "join_comma (x # y # ys) = x @ '', '' @ join_comma (y # ys)"

definition repr_list :: "string list \<Rightarrow> string" where
  "repr_list xs = ''['' @ join_comma (map (\<lambda>x. [CHR 0x27] @ x @ [CHR 0x27]) xs) @ '']''"

text \<open>The \<^verbatim>\<open>device\<close> argument, a string or a \<^verbatim>\<open>torch.device\<close>, and lines 190-191,
  which turn a string into a device.\<close>

datatype device_arg = DeviceStr string | TorchDevice string

definition to_torch_device :: "env \<Rightarrow> device_arg \<Rightarrow> error + string" where
  "to_torch_device env device =
     (case device of DeviceStr s \<Rightarrow> torch_device env s | TorchDevice d \<Rightarrow> Inr d)"

record create_args =
  arg_model_name :: string
  arg_pretrained :: "string option"
  arg_precision :: string
  arg_device :: device_arg
  arg_jit :: bool
  arg_force_quick_gelu :: bool
  arg_force_custom_text :: bool
  arg_force_patch_dropout :: "real option"
  arg_pretrained_image :: bool
  arg_pretrained_hf :: bool
  arg_cache_dir :: "string option"

text \<open>
  Line 205: \<^verbatim>\<open>which_pretrained_image_tower\<close> as an optional string, and whether it names
  the OpenAI tower. A value that is neither \<^verbatim>\<open>None\<close> nor a string has no \<^verbatim>\<open>lower\<close>.
\<close>

definition extract_openai :: "json \<Rightarrow> (string option \<times> bool) M" where
  "extract_openai which =
     (case which of
        Leaf SNull \<Rightarrow> ret (None, False)
      | Leaf (SStr s) \<Rightarrow> ret (Some s, lower s = ''openai'')
      | _ \<Rightarrow> raise AttributeError)"

text \<open>Line 206.\<close>

definition is_pure_openai :: "string option \<Rightarrow> bool \<Rightarrow> bool" where
  "is_pure_openai pretrained extract_openai_image_tower =
     (str_truthy pretrained \<and> map_option lower pretrained = Some ''openai''
      \<and> \<not> extract_openai_image_tower)"

text \<open>Lines 210-219.\<close>

definition call_load_openai ::
  "env \<Rightarrow> string \<Rightarrow> string \<Rightarrow> create_args \<Rightarrow> model M" where
  "call_load_openai env model_name device args =
     bnd (emit (EvLoadOpenAI model_name)) (\<lambda>_.
       lift (load_openai_model env model_name (arg_precision args) device
               (arg_jit args) (arg_cache_dir args)))"

text \<open>Lines 222-225.\<close>

definition instantiate :: "env \<Rightarrow> nat \<Rightarrow> bool \<Rightarrow> dtype option \<Rightarrow> model M" where
  "instantiate env model_cfg custom_text cast_dtype =
     bnd (read_cfg_value model_cfg) (\<lambda>kwargs.
       if custom_text
       then bnd (emit (EvInstantiate CustomTextCLIP)) (\<lambda>_.
              lift (new_CustomTextCLIP env kwargs cast_dtype))
       else bnd (emit (EvInstantiate CLIP)) (\<lambda>_.
              lift (new_CLIP env kwargs cast_dtype)))"

text \<open>Lines 230-238: the pretrained config and the checkpoint path.\<close>

definition find_checkpoint ::
  "env \<Rightarrow> string \<Rightarrow> string option \<Rightarrow> bool \<Rightarrow> string option
     \<Rightarrow> ((string \<times> json) list \<times> string option) M" where
  "find_checkpoint env model_name pretrained process_openai cache_dir =
     (case pretrained of
        Some p \<Rightarrow>
          if p \<noteq> [] \<and> \<not> process_openai
          then (let pretrained_cfg = get_pretrained_cfg env model_name p in
                if pretrained_cfg \<noteq> []
                then bnd (emit EvDownload) (\<lambda>_.
                     bnd (lift (download_pretrained env pretrained_cfg cache_dir)) (\<lambda>path.
                     ret (pretrained_cfg, Some path)))
                else if path_exists env p then ret (pretrained_cfg, Some p)
                else ret (pretrained_cfg, None))
          else ret ([], None)
      | None \<Rightarrow> ret ([], None))"

definition weights_not_found_msg :: "env \<Rightarrow> string \<Rightarrow> string \<Rightarrow> string" where
  "weights_not_found_msg env pretrained model_name =
     ''Pretrained weights ('' @ pretrained @ '') not found for model '' @ model_name
     @ ''.Available pretrained tags (''
     @ repr_list (list_pretrained_tags_by_model env model_name) @ ''.''"

text \<open>Lines 240-253.\<close>

definition load_weights ::
  "env \<Rightarrow> model \<Rightarrow> string \<Rightarrow> string option \<Rightarrow> string option \<Rightarrow> bool \<Rightarrow> json
     \<Rightarrow> visual option \<Rightarrow> model M" where
  "load_weights env m model_name pretrained checkpoint_path extract_openai_image_tower
       which_pretrained_image_tower pretrained_image_tower =
     (if str_truthy checkpoint_path \<or> extract_openai_image_tower
      then bnd (emit EvLoadCheckpoint) (\<lambda>_.
           bnd (lift (load_checkpoint env m checkpoint_path True which_pretrained_image_tower
                        pretrained_image_tower)) (\<lambda>(m', _). ret m'))
      else (case pretrained of
              Some p \<Rightarrow>
                if p \<noteq> [] then raise (RuntimeError (weights_not_found_msg env p model_name))
                else ret m
            | None \<Rightarrow> ret m))"

text \<open>Lines 255-264.\<close>

definition finish_model ::
  "env \<Rightarrow> model \<Rightarrow> string \<Rightarrow> create_args \<Rightarrow> (string \<times> json) list \<Rightarrow> model M" where
  "finish_model env m device args pretrained_cfg =
     bnd (emit (EvToDevice device)) (\<lambda>_.
     bnd (lift (model_to env m device)) (\<lambda>m1.
     bnd (if arg_precision args = ''fp16'' \<or> arg_precision args = ''bf16''
          then (let dt = (if arg_precision args = ''bf16'' then BFloat16 else Float16) in
                bnd (emit (EvConvertLP dt)) (\<lambda>_. lift (convert_weights_to_lp env m1 dt)))
          else ret m1) (\<lambda>m2.
     let mean = py_or (case dict_get pretrained_cfg ''mean'' of Some j \<Rightarrow> j | None \<Rightarrow> Leaf SNull)
                  (OPENAI_DATASET_MEAN env);
         std = py_or (case dict_get pretrained_cfg ''std'' of Some j \<Rightarrow> j | None \<Rightarrow> Leaf SNull)
                  (OPENAI_DATASET_STD env);
         m3 = m2\<lparr>visual := (visual m2)\<lparr>image_mean := mean, image_std := std\<rparr>\<rparr>
     in if arg_jit args
        then bnd (emit EvJit) (\<lambda>_. lift (jit_script env m3))
        else ret m3)))"

text \<open>
  \<^verbatim>\<open>create_model\<close> (lines 175-266). \<open>resolve_config\<close> is lines 188-205: the name is
  normalised, a device string is turned into a device, the config is loaded and prepared,
  the image tower setting is read. The pure OpenAI path returns the model of
  \<^verbatim>\<open>load_openai_model\<close>; any other path instantiates a network, and has loaded the OpenAI
  model before when its image tower is to be used.
\<close>

definition resolve_config ::
  "env \<Rightarrow> create_args
     \<Rightarrow> (string \<times> nat \<times> bool \<times> json \<times> string option \<times> bool \<times> string) M" where
  "resolve_config env args =
     bnd (lift (to_torch_device env (arg_device args))) (\<lambda>device.
     bnd (load_and_prepare_cfg env (replace_slash (arg_model_name args))
            (arg_force_quick_gelu args) (arg_force_patch_dropout args)
            (arg_pretrained_image args) (arg_force_custom_text args) (arg_pretrained_hf args))
       (\<lambda>(model_name, model_cfg, custom_text, which_pretrained_image_tower).
     bnd (extract_openai which_pretrained_image_tower) (\<lambda>(which, extract_openai_image_tower).
     ret (model_name, model_cfg, custom_text, which_pretrained_image_tower, which,
          extract_openai_image_tower, device))))"

definition build_model ::
  "env \<Rightarrow> create_args \<Rightarrow> string \<Rightarrow> nat \<Rightarrow> bool \<Rightarrow> json \<Rightarrow> string option \<Rightarrow> bool
     \<Rightarrow> string \<Rightarrow> model M" where
  "build_model env args model_name model_cfg custom_text which_pretrained_image_tower which
       extract_openai_image_tower device =
     bnd (if extract_openai_image_tower
          then bnd (call_load_openai env model_name device args)
                 (\<lambda>om. ret (Some (visual om)))
          else ret None) (\<lambda>pretrained_image_tower.
     bnd (instantiate env model_cfg custom_text (get_cast_dtype env (arg_precision args))) (\<lambda>m.
     let pretrained = (case which of Some t \<Rightarrow> Some t | None \<Rightarrow> arg_pretrained args) in
     bnd (find_checkpoint env model_name pretrained extract_openai_image_tower
            (arg_cache_dir args)) (\<lambda>(pretrained_cfg, checkpoint_path).
     bnd (load_weights env m model_name pretrained checkpoint_path
            extract_openai_image_tower which_pretrained_image_tower pretrained_image_tower)
       (\<lambda>m'.
     finish_model env m' device args pretrained_cfg))))"

definition create_model :: "env \<Rightarrow> create_args \<Rightarrow> model M" where
  "create_model env args =
     bnd (resolve_config env args)
       (\<lambda>(model_name, model_cfg, custom_text, which_pretrained_image_tower, which,
           extract_openai_image_tower, device).
     if is_pure_openai (arg_pretrained args) extract_openai_image_tower
     then call_load_openai env model_name device args
     else build_model env args model_name model_cfg custom_text which_pretrained_image_tower
            which extract_openai_image_tower device)"

text \<open>Whether a call resolves its config and then takes the pure OpenAI path.\<close>

definition pure_openai_path :: "env \<Rightarrow> create_args \<Rightarrow> world \<Rightarrow> bool" where
  "pure_openai_path env args w =
     (case resolve_config env args w of
        (Inr (_, _, _, _, _, extract_openai_image_tower, _), _) \<Rightarrow>
          is_pure_openai (arg_pretrained args) extract_openai_image_tower
      | (Inl _, _) \<Rightarrow> False)"

text \<open>\<^verbatim>\<open>create_model_and_transforms\<close> (lines 269-313).\<close>

definition create_model_and_transforms ::
  "env \<Rightarrow> create_args \<Rightarrow> json \<Rightarrow> json \<Rightarrow> (model \<times> transform \<times> transform) M" where
  "create_model_and_transforms env args image_mean_arg image_std_arg =
     bnd (create_model env args) (\<lambda>m.
     let mean = py_or image_mean_arg (image_mean (visual m));
         std = py_or image_std_arg (image_std (visual m)) in
     bnd (emit (EvImageTransform True)) (\<lambda>_.
     bnd (lift (image_transform env (image_size (visual m)) True mean std)) (\<lambda>preprocess_train.
     bnd (emit (EvImageTransform False)) (\<lambda>_.
     bnd (lift (image_transform env (image_size (visual m)) False mean std)) (\<lambda>preprocess_val.
     ret (m, preprocess_train, preprocess_val))))))"

text \<open>\<^verbatim>\<open>create_model_from_pretrained\<close> (lines 316-357); the arguments it does not take
  have the defaults of \<^verbatim>\<open>create_model\<close>.\<close>

definition not_valid_msg :: "string \<Rightarrow> string \<Rightarrow> string" where
  "not_valid_msg pretrained model_name =
     pretrained @ '' is not a valid pretrained cfg or checkpoint for '' @ model_name
     @ ''. Use open_clip.list_pretrained() to find one.''"

definition create_model_from_pretrained ::
  "env \<Rightarrow> string \<Rightarrow> string \<Rightarrow> string \<Rightarrow> device_arg \<Rightarrow> bool \<Rightarrow> bool \<Rightarrow> bool \<Rightarrow> bool
     \<Rightarrow> json \<Rightarrow> json \<Rightarrow> string option \<Rightarrow> (model \<times> transform option) M" where
  "create_model_from_pretrained env model_name pretrained precision device jit
       force_quick_gelu force_custom_text return_transform image_mean_arg image_std_arg
       cache_dir =
     (if \<not> is_pretrained_cfg env model_name pretrained \<and> \<not> path_exists env pretrained
      then raise (RuntimeError (not_valid_msg pretrained model_name))
      else
        bnd (create_model env
               \<lparr>arg_model_name = model_name, arg_pretrained = Some pretrained,
                arg_precision = precision, arg_device = device, arg_jit = jit,
                arg_force_quick_gelu = force_quick_gelu,
                arg_force_custom_text = force_custom_text,
                arg_force_patch_dropout = None, arg_pretrained_image = False,
                arg_pretrained_hf = True, arg_cache_dir = cache_dir\<rparr>) (\<lambda>m.
        if \<not> return_transform then ret (m, None)
        else
          let mean = py_or image_mean_arg (image_mean (visual m));
              std = py_or image_std_arg (image_std (visual m)) in
          bnd (emit (EvImageTransform False)) (\<lambda>_.
          bnd (lift (image_transform env (image_size (visual m)) False mean std)) (\<lambda>preprocess.
          ret (m, Some preprocess)))))"

section \<open>A small registry and framework\<close>

text \<open>
  Five configs in the shape of the repository's config files: two plain ones, one with a
  Hugging Face text tower, and two whose image tower is taken from another model (with named
  weights, and with the OpenAI weights that are the default); and a
  framework in which every call succeeds that is given what it expects.
\<close>

definition example_world :: world where
  "example_world =
     \<lparr>registry = [(''RN50'', 0), (''ViT-B-32'', 1), (''roberta-ViT-B-32'', 2),
                  (''tower-ViT-B-32'', 3), (''openai-tower-ViT-B-32'', 4)],
      tops =
        [[(''embed_dim'', VScalar (SNum 1024)), (''vision_cfg'', Sub 0), (''text_cfg'', Sub 1)],
         [(''embed_dim'', VScalar (SNum 512)), (''vision_cfg'', Sub 2), (''text_cfg'', Sub 3)],
         [(''embed_dim'', VScalar (SNum 512)), (''quick_gelu'', VScalar (SBool True)),
          (''vision_cfg'', Sub 4), (''text_cfg'', Sub 5)],
         [(''embed_dim'', VScalar (SNum 512)), (''vision_cfg'', Sub 6), (''text_cfg'', Sub 7)],
         [(''embed_dim'', VScalar (SNum 512)), (''vision_cfg'', Sub 8), (''text_cfg'', Sub 9)]],
      subs =
        [[(''image_size'', Leaf (SNum 224)),
          (''layers'', JArr [Leaf (SNum 3), Leaf (SNum 4), Leaf (SNum 6), Leaf (SNum 3)])],
         [(''context_length'', Leaf (SNum 77))],
         [(''image_size'', Leaf (SNum 224)), (''patch_size'', Leaf (SNum 32))],
         [(''context_length'', Leaf (SNum 77))],
         [(''image_size'', Leaf (SNum 224)), (''patch_size'', Leaf (SNum 32))],
         [(''hf_model_name'', Leaf (SStr ''roberta-base'')),
          (''hf_tokenizer_name'', Leaf (SStr ''roberta-base''))],
         [(''model_name'', Leaf (SStr ''ViT-B-32'')),
          (''pretrained'', Leaf (SStr ''laion400m_e32''))],
         [(''context_length'', Leaf (SNum 77))],
         [(''model_name'', Leaf (SStr ''ViT-B-32''))],
         [(''context_length'', Leaf (SNum 77))]],
      trace = []\<rparr>"

definition example_visual :: visual where
  "example_visual =
     \<lparr>v_state = [(''proj'', Tensor 0)], image_size = Leaf (SNum 224),
      image_mean = Leaf SNull, image_std = Leaf SNull\<rparr>"

definition example_model :: "model_cls \<Rightarrow> model" where
  "example_model c =
     \<lparr>cls = c, visual = example_visual, state = [(''logit_scale'', Tensor 1)],
      has_positional_embedding = (c \<noteq> CustomTextCLIP)\<rparr>"

definition example_env :: env where
  "example_env =
     \<lparr>get_cast_dtype =
        (\<lambda>p. if p = ''bf16'' then Some BFloat16 else if p = ''fp16'' then Some Float16 else None),
      load_openai_model =
        (\<lambda>name precision device jit cache_dir.
           if name = ''RN50'' \<or> name = ''ViT-B-32'' then Inr (example_model OpenAIModel)
           else Inl (RuntimeError (''Model '' @ name @ '' not found; available models = ''
                       @ repr_list [''RN50'', ''ViT-B-32'']))),
      new_CLIP = (\<lambda>cfg dt. Inr (example_model CLIP)),
      new_CustomTextCLIP = (\<lambda>cfg dt. Inr (example_model CustomTextCLIP)),
      get_pretrained_cfg =
        (\<lambda>name tag.
           if name = ''ViT-B-32'' \<and> lower tag = ''laion400m_e32''
           then [(''url'', Leaf (SStr ''vit_b_32-quickgelu-laion400m_e32.pt''))]
           else if (name = ''RN50'' \<or> name = ''ViT-B-32'') \<and> lower tag = ''openai''
           then [(''url'', Leaf (SStr ''openai.pt''))]
           else []),
      is_pretrained_cfg =
        (\<lambda>name tag.
           name = ''ViT-B-32'' \<and> lower tag = ''laion400m_e32''
           \<or> (name = ''RN50'' \<or> name = ''ViT-B-32'') \<and> lower tag = ''openai''),
      list_pretrained_tags_by_model =
        (\<lambda>name. if name = ''ViT-B-32'' then [''openai'', ''laion400m_e32'']
                  else if name = ''RN50'' then [''openai''] else []),
      download_pretrained = (\<lambda>cfg cache_dir. Inr ''cache/vit_b_32.pt''),
      path_exists = (\<lambda>p. p = ''cache/vit_b_32.pt''),
      torch_load =
        (\<lambda>p. if p = Some ''cache/vit_b_32.pt''
              then Inr (Dict [(''visual.proj'', Tensor 7), (''logit_scale'', Tensor 8)])
              else Inl (ExternalError ''torch.load'')),
      convert_to_custom_text_state_dict = (\<lambda>sd. Inr sd),
      resize_pos_embed = (\<lambda>sd m. Inr sd),
      visual_load_state_dict = (\<lambda>v sd strict. Inr (v\<lparr>v_state := sd\<rparr>, [])),
      model_load_state_dict =
        (\<lambda>m sd strict.
           Inr (m\<lparr>visual := (visual m)\<lparr>v_state := visual_entries sd\<rparr>,
                  state := filter (\<lambda>i. \<not> startswith (fst i) ''visual'') sd\<rparr>, [])),
      model_to = (\<lambda>m device. Inr m),
      convert_weights_to_lp = (\<lambda>m dt. Inr m),
      jit_script = (\<lambda>m. Inr m),
      image_transform = (\<lambda>size is_train mean std. Inr (Transform (if is_train then 1 else 0))),
      OPENAI_DATASET_MEAN = JArr [Leaf (SNum 0.48145466), Leaf (SNum 0.4578275), Leaf (SNum 0.40821073)],
      OPENAI_DATASET_STD = JArr [Leaf (SNum 0.26862954), Leaf (SNum 0.26130258), Leaf (SNum 0.27577711)],
      str_num = (\<lambda>x. ''0''),
      torch_device =
        (\<lambda>s. if s = ''cpu'' \<or> s = ''cuda'' then Inr s
              else Inl (RuntimeError
                     (''Expected one of cpu, cuda, ipu, xpu, mkldnn, opengl, opencl, ''
                      @ ''ideep, hip, ve, ort, mps, xla, lazy, vulkan, meta, hpu device type ''
                      @ ''at start of device string: '' @ s))),
      new_HFTokenizer =
        (\<lambda>n. case n of
                Leaf (SStr s) \<Rightarrow> Inr (HFTokenizer n)
              | _ \<Rightarrow> Inl (ExternalError ''HFTokenizer''))\<rparr>"

definition example_args :: create_args where
  "example_args =
     \<lparr>arg_model_name = ''ViT-B/32'', arg_pretrained = None, arg_precision = ''fp32'',
      arg_device = DeviceStr ''cpu'', arg_jit = False, arg_force_quick_gelu = False,
      arg_force_custom_text = False, arg_force_patch_dropout = None,
      arg_pretrained_image = False, arg_pretrained_hf = True, arg_cache_dir = None\<rparr>"

definition example_tower_args :: create_args where
  "example_tower_args =
     example_args\<lparr>arg_model_name := ''tower-ViT-B-32'', arg_precision := ''fp16'',
                   arg_jit := True\<rparr>"

section \<open>Properties of computations\<close>

text \<open>\<open>emits_only P m\<close>: whatever \<open>m\<close> does, it only appends events satisfying \<open>P\<close>
  to the trace.\<close>

definition emits_only :: "(event \<Rightarrow> bool) \<Rightarrow> 'a M \<Rightarrow> bool" where
  "emits_only P m =
     (\<forall>w r w'. m w = (r, w') \<longrightarrow> (\<exists>es. trace w' = trace w @ es \<and> (\<forall>e \<in> set es. P e)))"

definition is_resolve :: "event \<Rightarrow> bool" where
  "is_resolve e = (case e of EvResolveCfg _ \<Rightarrow> True | _ \<Rightarrow> False)"

definition is_convert :: "event \<Rightarrow> bool" where
  "is_convert e = (case e of EvConvertLP _ \<Rightarrow> True | _ \<Rightarrow> False)"

text \<open>The events of lines 256-257 for a given \<open>precision\<close>.\<close>

definition cast_events :: "string \<Rightarrow> event list" where
  "cast_events precision =
     (if precision = ''fp16'' then [EvConvertLP Float16]
      else if precision = ''bf16'' then [EvConvertLP BFloat16] else [])"

text \<open>
  Well-formedness of the store and the relation between a dict and its deep copy:
  \<open>cfg_ok w a\<close> says that the config at \<open>a\<close> exists and refers to existing dicts only;
  \<open>copied w w' e e'\<close> says that entry \<open>e'\<close> read in \<open>w'\<close> has the key and the value
  of entry \<open>e\<close> read in \<open>w\<close>; \<open>memo_ok\<close> is the invariant of the memo of
  \<open>copy_entries\<close>.
\<close>

definition cfg_ok :: "world \<Rightarrow> nat \<Rightarrow> bool" where
  "cfg_ok w a =
     (a < length (tops w) \<and> (\<forall>k s. (k, Sub s) \<in> set (tops w ! a) \<longrightarrow> s < length (subs w)))"

definition memo_ok :: "nat \<Rightarrow> world \<Rightarrow> (nat \<times> nat) list \<Rightarrow> bool" where
  "memo_ok N w memo =
     (\<forall>(a, b) \<in> set memo. a < N \<and> b < length (subs w) \<and> subs w ! b = subs w ! a)"

definition copied :: "world \<Rightarrow> world \<Rightarrow> (string \<times> val) \<Rightarrow> (string \<times> val) \<Rightarrow> bool" where
  "copied w w' e e' = (fst e' = fst e \<and> val_json w' (snd e') = val_json w (snd e))"

text \<open>
  The frame of a call started in \<open>w0\<close>. \<open>extends w0 w\<close>: the registry of \<open>w\<close> is that
  of \<open>w0\<close> and every object of \<open>w0\<close> is in \<open>w\<close>, unchanged, at its address. A value or
  a dict is fresh when it refers to no dict of \<open>w0\<close>. \<open>frame_inv w0 w\<close> adds that the
  config dicts allocated since \<open>w0\<close> are fresh. \<open>keeps w0 Q m\<close>: from a state with that
  invariant, \<open>m\<close> ends in a state with it, and a result it returns satisfies \<open>Q\<close>.
\<close>

definition extends :: "world \<Rightarrow> world \<Rightarrow> bool" where
  "extends w0 w =
     (registry w = registry w0
      \<and> take (length (tops w0)) (tops w) = tops w0
      \<and> take (length (subs w0)) (subs w) = subs w0)"

definition fresh_val :: "world \<Rightarrow> val \<Rightarrow> bool" where
  "fresh_val w0 v = (\<forall>s. v = Sub s \<longrightarrow> length (subs w0) \<le> s)"

definition fresh_dict :: "world \<Rightarrow> (string \<times> val) list \<Rightarrow> bool" where
  "fresh_dict w0 d = (\<forall>e \<in> set d. fresh_val w0 (snd e))"

definition fresh_closed :: "world \<Rightarrow> world \<Rightarrow> bool" where
  "fresh_closed w0 w =
     (\<forall>c. length (tops w0) \<le> c \<and> c < length (tops w) \<longrightarrow> fresh_dict w0 (tops w ! c))"

definition frame_inv :: "world \<Rightarrow> world \<Rightarrow> bool" where
  "frame_inv w0 w = (extends w0 w \<and> fresh_closed w0 w)"

definition keeps :: "world \<Rightarrow> ('a \<Rightarrow> bool) \<Rightarrow> 'a M \<Rightarrow> bool" where
  "keeps w0 Q m =
     (\<forall>w r w'. frame_inv w0 w \<longrightarrow> m w = (r, w') \<longrightarrow> frame_inv w0 w' \<and> (\<forall>x. r = Inr x \<longrightarrow> Q x))"

section \<open>Facts about dicts\<close>

lemma map_of_dict_set: "map_of (dict_set d k v) = (map_of d)(k \<mapsto> v)"
  by (induction d) (auto simp: fun_eq_iff)

lemma foldl_dict_set_map_of:
  "map_of (foldl (\<lambda>d (k, v). dict_set d k v) acc ps) = map_of acc ++ map_of (rev ps)"
proof (induction ps arbitrary: acc)
  case Nil
  show ?case by simp
next
  case (Cons p ps)
  obtain k v where p: "p = (k, v)" by (cases p)
  have "map_of (foldl (\<lambda>d (k, v). dict_set d k v) (dict_set acc k v) ps)
        = map_of (dict_set acc k v) ++ map_of (rev ps)"
    by (rule Cons.IH)
  then show ?case
    by (simp add: p map_of_dict_set map_add_def fun_eq_iff split: option.splits)
qed

lemma map_of_dict_of_pairs: "map_of (dict_of_pairs ps) = map_of (rev ps)"
  by (simp add: dict_of_pairs_def foldl_dict_set_map_of)

lemma dict_set_fresh: "k \<notin> fst ` set d \<Longrightarrow> dict_set d k v = d @ [(k, v)]"
  by (induction d) auto

lemma foldl_dict_set_distinct:
  "distinct (map fst (acc @ ps)) \<Longrightarrow> foldl (\<lambda>d (k, v). dict_set d k v) acc ps = acc @ ps"
proof (induction ps arbitrary: acc)
  case Nil
  show ?case by simp
next
  case (Cons p ps)
  obtain k v where p: "p = (k, v)" by (cases p)
  from Cons.prems have fresh: "k \<notin> fst ` set acc" by (auto simp: p)
  from Cons.prems have "distinct (map fst ((acc @ [(k, v)]) @ ps))" by (simp add: p)
  then have "foldl (\<lambda>d (k, v). dict_set d k v) (acc @ [(k, v)]) ps = (acc @ [(k, v)]) @ ps"
    by (rule Cons.IH)
  then show ?case by (simp add: p dict_set_fresh [OF fresh])
qed

lemma dict_of_pairs_distinct: "distinct (map fst ps) \<Longrightarrow> dict_of_pairs ps = ps"
  using foldl_dict_set_distinct [of "[]" ps] by (simp add: dict_of_pairs_def)

section \<open>Claims about \<open>load_state_dict\<close>\<close>

text \<open>
  C4 (as amended). When the selected state dict (\<^verbatim>\<open>checkpoint['state_dict']\<close> if the
  checkpoint is a dict with that key, the checkpoint itself otherwise) is a non-empty
  dict \<open>d\<close>, \<open>load_state_dict\<close> returns it unchanged unless its first key starts
  with \<open>module\<close>; in that case it returns the dict built by inserting, in order, each
  value under its key without the first 7 characters. A later entry replaces an earlier
  one with the same shortened key, and when the shortened keys are pairwise distinct the
  result is exactly the list of entries under their shortened keys.
\<close>

theorem load_state_dict_nonempty:
  assumes "select_state_dict ck = Dict d" and "d \<noteq> []"
  shows "\<exists>r. load_state_dict ck =
           Inr (if startswith (fst (hd d)) ''module'' then Dict r else Dict d)
         \<and> map_of r = map_of (rev (map (\<lambda>(k, v). (drop 7 k, v)) d))
         \<and> (distinct (map (drop 7 \<circ> fst) d) \<longrightarrow> r = map (\<lambda>(k, v). (drop 7 k, v)) d)"
proof -
  let ?ps = "map (\<lambda>(k, v). (drop 7 k, v)) d"
  obtain k0 v0 rest where d: "d = (k0, v0) # rest"
    using assms(2) by (cases d) auto
  have fst_ps: "map fst ?ps = map (drop 7 \<circ> fst) d"
    by (induction d) auto
  have 1: "load_state_dict ck =
      Inr (if startswith (fst (hd d)) ''module'' then Dict (dict_of_pairs ?ps) else Dict d)"
    using assms(1) by (simp add: load_state_dict_def d)
  have 2: "map_of (dict_of_pairs ?ps) = map_of (rev ?ps)"
    by (rule map_of_dict_of_pairs)
  have 3: "distinct (map (drop 7 \<circ> fst) d) \<longrightarrow> dict_of_pairs ?ps = ?ps"
  proof
    assume "distinct (map (drop 7 \<circ> fst) d)"
    then have "distinct (map fst ?ps)" by (simp only: fst_ps)
    then show "dict_of_pairs ?ps = ?ps" by (rule dict_of_pairs_distinct)
  qed
  from 1 2 3 show ?thesis by blast
qed

theorem load_state_dict_nonempty_witness:
  "load_state_dict (Dict [(''state_dict'',
       Dict [(''module.visual.proj'', Tensor (1::nat)), (''module.logit_scale'', Tensor 2)])])
   = Inr (Dict [(''visual.proj'', Tensor 1), (''logit_scale'', Tensor 2)])"
  using load_state_dict_nonempty
    [of "Dict [(''state_dict'',
           Dict [(''module.visual.proj'', Tensor (1::nat)), (''module.logit_scale'', Tensor 2)])]"
        "[(''module.visual.proj'', Tensor (1::nat)), (''module.logit_scale'', Tensor 2)]"]
  by (simp add: select_state_dict_def dict_get_def startswith_def)

theorem load_state_dict_counterexample:
  "load_state_dict (Dict [] :: nat pyobj) = Inl StopIteration
   \<and> load_state_dict (Dict [(''module.a'', Tensor (1::nat)), (''nodule.a'', Tensor 2)])
       = Inr (Dict [(''a'', Tensor 2)])"
  by (simp add: load_state_dict_def select_state_dict_def dict_get_def startswith_def
      dict_of_pairs_def)

section \<open>Claims about the model name\<close>








lemma get_model_config_unregistered:
  "map_of (registry w) n = None \<Longrightarrow> get_model_config n w = (Inr None, w)"
  by (simp add: get_model_config_def lookup_registry_def bnd_def ret_def)

lemma get_cfg_unregistered:
  "map_of (registry w) n = None \<Longrightarrow>
   get_cfg_and_handle_error n w = (Inl (RuntimeError (not_found_msg n)), w)"
  by (simp add: get_cfg_and_handle_error_def bnd_def get_model_config_unregistered raise_def)

lemma load_and_prepare_cfg_unregistered:
  "map_of (registry w) n = None \<Longrightarrow>
   load_and_prepare_cfg env n fq fp pim fc ph w = (Inl (RuntimeError (not_found_msg n)), w)"
  by (simp add: load_and_prepare_cfg_def bnd_def get_cfg_unregistered)

text \<open>
  C1 (as amended). When the \<open>device\<close> argument is a device, or a string that
  \<^verbatim>\<open>torch.device\<close> accepts, and the normalised model name is not a key of the registry,
  \<open>create_model\<close> raises \<open>RuntimeError\<close> with the message
  \<open>Model config for <name> not found.\<close> (the name normalised), and the state is the one
  it started in: no framework call has been made, so no model has been built.
\<close>

theorem create_model_unregistered:
  assumes "map_of (registry w) (replace_slash (arg_model_name args)) = None"
    and "to_torch_device env (arg_device args) = Inr dev"
  shows "create_model env args w =
           (Inl (RuntimeError (''Model config for '' @ replace_slash (arg_model_name args)
                               @ '' not found.'')), w)"
  using load_and_prepare_cfg_unregistered [OF assms(1)] assms(2)
  by (simp add: create_model_def resolve_config_def bnd_def lift_def not_found_msg_def)

theorem create_model_unregistered_witness:
  "create_model example_env (example_args\<lparr>arg_model_name := ''ViT-L/14''\<rparr>) example_world =
     (Inl (RuntimeError ''Model config for ViT-L-14 not found.''), example_world)"
  using create_model_unregistered
    [of example_world "example_args\<lparr>arg_model_name := ''ViT-L/14''\<rparr>" example_env "''cpu''"]
  by (simp add: example_world_def example_args_def example_env_def replace_slash_def
      to_torch_device_def)

theorem create_model_unregistered_counterexample:
  "map_of (registry example_world) (replace_slash ''ViT-L/14'') = None
   \<and> create_model example_env
        (example_args\<lparr>arg_model_name := ''ViT-L/14'', arg_device := DeviceStr ''nonsense''\<rparr>)
        example_world
     = (Inl (RuntimeError
          (''Expected one of cpu, cuda, ipu, xpu, mkldnn, opengl, opencl, ''
           @ ''ideep, hip, ve, ort, mps, xla, lazy, vulkan, meta, hpu device type ''
           @ ''at start of device string: nonsense'')), example_world)"
  by (simp add: create_model_def resolve_config_def bnd_def lift_def to_torch_device_def
      example_world_def example_args_def example_env_def replace_slash_def)

section \<open>Claims about \<open>load_checkpoint\<close>\<close>


lemma startswith_append: "startswith (p @ s) p"
  by (simp add: startswith_def)

lemma startswith_split: "startswith k p \<Longrightarrow> length p = n \<Longrightarrow> k = p @ drop n k"
  by (metis append_take_drop_id startswith_def)

lemma visual_dot_visual: "startswith k ''visual.'' \<Longrightarrow> startswith k ''visual''"
  by (auto simp: startswith_def dest: arg_cong [where f = "take 6"])

lemma distinct_drop_prefix:
  assumes "distinct (map fst xs)" and "\<forall>k \<in> fst ` set xs. startswith k p" and n: "length p = n"
  shows "distinct (map (\<lambda>i. drop n (fst i)) xs)"
proof -
  have inj: "inj_on (drop n) (set (map fst xs))"
  proof (rule inj_onI)
    fix a b assume a: "a \<in> set (map fst xs)" and b: "b \<in> set (map fst xs)"
      and eq: "drop n a = drop n b"
    from a assms(2) have "a = p @ drop n a" by (auto intro: startswith_split [OF _ n])
    moreover from b assms(2) have "b = p @ drop n b" by (auto intro: startswith_split [OF _ n])
    ultimately show "a = b" using eq by metis
  qed
  have "distinct (map (drop n) (map fst xs))"
    by (subst distinct_map) (use assms(1) inj in blast)
  then show ?thesis by (simp add: comp_def)
qed

lemma visual_entries_dotted:
  assumes d: "distinct (map fst sd)"
    and dot: "\<forall>k \<in> fst ` set sd. startswith k ''visual'' \<longrightarrow> startswith k ''visual.''"
  shows "visual_entries sd =
           map (\<lambda>i. (drop 7 (fst i), snd i)) (filter (\<lambda>i. startswith (fst i) ''visual'') sd)"
proof -
  let ?f = "filter (\<lambda>i. startswith (fst i) ''visual'') sd"
  have 1: "distinct (map fst ?f)" using d by (simp add: distinct_map_filter)
  have 2: "\<forall>k \<in> fst ` set ?f. startswith k ''visual.''" using dot by auto
  have 3: "length ''visual.'' = 7" by simp
  have "distinct (map (\<lambda>i. drop 7 (fst i)) ?f)"
    by (rule distinct_drop_prefix [OF 1 2 3])
  then have "distinct (map fst (map (\<lambda>i. (drop 7 (fst i), snd i)) ?f))"
    by (simp add: comp_def)
  then have "dict_of_pairs (map (\<lambda>i. (drop 7 (fst i), snd i)) ?f)
             = map (\<lambda>i. (drop 7 (fst i), snd i)) ?f"
    by (rule dict_of_pairs_distinct)
  moreover have "length ''visual'' + 1 = 7" by simp
  ultimately show ?thesis by (simp only: visual_entries_def)
qed

lemma visual_entries_mem:
  assumes dot: "\<forall>k \<in> fst ` set sd. startswith k ''visual'' \<longrightarrow> startswith k ''visual.''"
  shows "(k, v) \<in> set (map (\<lambda>i. (drop 7 (fst i), snd i))
                        (filter (\<lambda>i. startswith (fst i) ''visual'') sd))
         \<longleftrightarrow> (''visual.'' @ k, v) \<in> set sd"
proof
  assume "(k, v) \<in> set (map (\<lambda>i. (drop 7 (fst i), snd i))
                        (filter (\<lambda>i. startswith (fst i) ''visual'') sd))"
  then obtain k0 where in0: "(k0, v) \<in> set sd" and sw: "startswith k0 ''visual''"
    and k: "k = drop 7 k0" by auto
  from in0 sw dot have "startswith k0 ''visual.''" by force
  then have e: "k0 = ''visual.'' @ drop 7 k0" by (rule startswith_split) simp
  have "''visual.'' @ k = k0" unfolding k by (rule e [symmetric])
  with in0 show "(''visual.'' @ k, v) \<in> set sd" by (simp only:)
next
  assume a: "(''visual.'' @ k, v) \<in> set sd"
  have "startswith (''visual.'' @ k) ''visual''"
    by (rule visual_dot_visual) (rule startswith_append)
  with a have "(''visual.'' @ k, v) \<in> set (filter (\<lambda>i. startswith (fst i) ''visual'') sd)"
    by simp
  then have "(\<lambda>i. (drop 7 (fst i), snd i)) (''visual.'' @ k, v)
       \<in> (\<lambda>i. (drop 7 (fst i), snd i)) ` set (filter (\<lambda>i. startswith (fst i) ''visual'') sd)"
    by (rule imageI)
  then show "(k, v) \<in> set (map (\<lambda>i. (drop 7 (fst i), snd i))
                        (filter (\<lambda>i. startswith (fst i) ''visual'') sd))"
    by simp
qed

text \<open>
  C3 (as amended). \<open>load_checkpoint\<close> is called with an image tower named
  (\<open>which_pretrained_image_tower\<close> not \<open>None\<close>) and no tower object. Let \<open>sd2\<close> be the
  state dict of the checkpoint after the old-format conversion (when it applies) and after
  \<open>resize_pos_embed\<close>, and let every key of \<open>sd2\<close> that starts with \<open>visual\<close> start
  with \<open>visual.\<close>. Then \<open>model.visual.load_state_dict\<close> is called with exactly the
  entries of \<open>sd2\<close> whose key starts with \<open>visual\<close>, in their order, each under its
  key without the prefix \<open>visual.\<close>; the model returned differs from the one passed in
  its image tower only.
\<close>

theorem load_checkpoint_visual_tower:
  assumes which: "which_pretrained_image_tower \<noteq> Leaf SNull"
    and loaded: "torch_load env checkpoint_path = Inr checkpoint"
    and sd: "load_state_dict checkpoint = Inr (Dict sd)"
    and conv: "(if dict_has sd ''positional_embedding'' \<and> \<not> has_positional_embedding m
                then convert_to_custom_text_state_dict env sd else Inr sd) = Inr sd1"
    and resized: "resize_pos_embed env sd1 m = Inr sd2"
    and keys: "distinct (map fst sd2)"
    and dot: "\<forall>k \<in> fst ` set sd2. startswith k ''visual'' \<longrightarrow> startswith k ''visual.''"
  shows "\<exists>passed.
           load_checkpoint env m checkpoint_path strict which_pretrained_image_tower None =
             (case visual_load_state_dict env (visual m) passed strict of
                Inl e \<Rightarrow> Inl e
              | Inr (v, incompatible_keys) \<Rightarrow> Inr (m\<lparr>visual := v\<rparr>, Some incompatible_keys))
         \<and> (\<forall>k v. (k, v) \<in> set passed \<longleftrightarrow> (''visual.'' @ k, v) \<in> set sd2)
         \<and> map fst passed = map (drop 7) (filter (\<lambda>k. startswith k ''visual'') (map fst sd2))"
proof -
  let ?passed = "map (\<lambda>i. (drop 7 (fst i), snd i))
                   (filter (\<lambda>i. startswith (fst i) ''visual'') sd2)"
  have ve: "visual_entries sd2 = ?passed" by (rule visual_entries_dotted [OF keys dot])
  have 1: "load_checkpoint env m checkpoint_path strict which_pretrained_image_tower None =
             (case visual_load_state_dict env (visual m) ?passed strict of
                Inl e \<Rightarrow> Inl e
              | Inr (v, incompatible_keys) \<Rightarrow> Inr (m\<lparr>visual := v\<rparr>, Some incompatible_keys))"
    using which loaded sd conv resized
    by (simp add: load_checkpoint_def ve del: One_nat_def)
  have 2: "\<forall>k v. (k, v) \<in> set ?passed \<longleftrightarrow> (''visual.'' @ k, v) \<in> set sd2"
    using visual_entries_mem [OF dot] by blast
  have 3: "map fst ?passed = map (drop 7) (filter (\<lambda>k. startswith k ''visual'') (map fst sd2))"
    by (simp add: filter_map comp_def)
  from 1 2 3 show ?thesis by blast
qed


theorem load_checkpoint_visual_tower_witness:
  "\<exists>passed.
     load_checkpoint example_env (example_model CLIP) (Some ''cache/vit_b_32.pt'') True
         (Leaf (SStr ''laion400m_e32'')) None =
       (case visual_load_state_dict example_env (visual (example_model CLIP)) passed True of
          Inl e \<Rightarrow> Inl e
        | Inr (v, incompatible_keys) \<Rightarrow>
            Inr ((example_model CLIP)\<lparr>visual := v\<rparr>, Some incompatible_keys))
     \<and> (\<forall>k v. (k, v) \<in> set passed \<longleftrightarrow>
          (''visual.'' @ k, v) \<in> set [(''visual.proj'', Tensor 7), (''logit_scale'', Tensor 8)])
     \<and> map fst passed =
         map (drop 7) (filter (\<lambda>k. startswith k ''visual'')
           (map fst [(''visual.proj'', Tensor 7), (''logit_scale'', Tensor (8::nat))]))"
  by (rule load_checkpoint_visual_tower
        [where checkpoint = "Dict [(''visual.proj'', Tensor 7), (''logit_scale'', Tensor 8)]"
           and sd = "[(''visual.proj'', Tensor 7), (''logit_scale'', Tensor 8)]"
           and ?sd1.0 = "[(''visual.proj'', Tensor 7), (''logit_scale'', Tensor 8)]"])
    (simp_all add: example_env_def load_state_dict_def select_state_dict_def dict_get_def
       dict_has_def startswith_def example_model_def)

theorem load_checkpoint_visual_tower_counterexample:
  "load_checkpoint
     (example_env\<lparr>torch_load :=
        (\<lambda>p. Inr (Dict [(''visual_proj'', Tensor 3), (''logit_scale'', Tensor 4)]))\<rparr>)
     (example_model CLIP) (Some ''ckpt.pt'') True (Leaf (SStr ''laion400m_e32'')) None
   = Inr ((example_model CLIP)\<lparr>visual := example_visual\<lparr>v_state := [(''proj'', Tensor 3)]\<rparr>\<rparr>,
          Some [])"
  by (simp add: load_checkpoint_def example_env_def load_state_dict_def
      select_state_dict_def dict_get_def dict_has_def startswith_def example_model_def
      visual_entries_def dict_of_pairs_def)

section \<open>Facts about computations and the trace\<close>

lemmas monad_defs = bnd_def ret_def raise_def lift_def emit_def

lemma bnd_Inr:
  "bnd m f w = (Inr y, w') \<longleftrightarrow> (\<exists>x w1. m w = (Inr x, w1) \<and> f x w1 = (Inr y, w'))"
  by (auto simp: bnd_def split: prod.splits sum.splits)

lemma bnd_Inl:
  "bnd m f w = (Inl e, w') \<longleftrightarrow>
     m w = (Inl e, w') \<or> (\<exists>x w1. m w = (Inr x, w1) \<and> f x w1 = (Inl e, w'))"
  by (auto simp: bnd_def split: prod.splits sum.splits)

lemma emits_onlyI:
  "(\<And>w r w'. m w = (r, w') \<Longrightarrow> trace w' = trace w) \<Longrightarrow> emits_only P m"
  by (fastforce simp: emits_only_def)

lemma emits_only_ret: "emits_only P (ret x)"
  by (rule emits_onlyI) (simp add: ret_def)

lemma emits_only_raise: "emits_only P (raise e)"
  by (rule emits_onlyI) (simp add: raise_def)

lemma emits_only_lift: "emits_only P (lift r)"
  by (rule emits_onlyI) (auto simp add: lift_def)

lemma emits_only_emit: "P ev \<Longrightarrow> emits_only P (emit ev)"
  by (auto simp: emits_only_def emit_def)

lemma emits_only_bnd:
  assumes m: "emits_only P m" and f: "\<And>x. emits_only P (f x)"
  shows "emits_only P (bnd m f)"
  unfolding emits_only_def
proof (intro allI impI)
  fix w r w' assume run: "bnd m f w = (r, w')"
  obtain r1 w1 where m1: "m w = (r1, w1)" by (cases "m w")
  from m m1 obtain es1 where t1: "trace w1 = trace w @ es1" and p1: "\<forall>e \<in> set es1. P e"
    unfolding emits_only_def by blast
  show "\<exists>es. trace w' = trace w @ es \<and> (\<forall>e \<in> set es. P e)"
  proof (cases r1)
    case (Inl e)
    with run m1 have "w' = w1" by (simp add: bnd_def)
    with t1 p1 show ?thesis by blast
  next
    case (Inr x)
    with run m1 have "f x w1 = (r, w')" by (simp add: bnd_def)
    with f [of x] obtain es2 where "trace w' = trace w1 @ es2" and "\<forall>e \<in> set es2. P e"
      unfolding emits_only_def by blast
    with t1 p1 have "trace w' = trace w @ (es1 @ es2) \<and> (\<forall>e \<in> set (es1 @ es2). P e)"
      by auto
    then show ?thesis by blast
  qed
qed

lemma emits_only_read_top: "emits_only P (read_top a)"
  by (rule emits_onlyI) (auto simp: read_top_def)

lemma emits_only_read_sub: "emits_only P (read_sub a)"
  by (rule emits_onlyI) (auto simp: read_sub_def)

lemma emits_only_read_cfg_value: "emits_only P (read_cfg_value a)"
  by (rule emits_onlyI) (auto simp: read_cfg_value_def)

lemma emits_only_lookup_registry: "emits_only P (lookup_registry n)"
  by (rule emits_onlyI) (auto simp: lookup_registry_def)

lemma emits_only_alloc_sub: "emits_only P (alloc_sub d)"
  by (rule emits_onlyI) (auto simp: alloc_sub_def)

lemma emits_only_alloc_top: "emits_only P (alloc_top d)"
  by (rule emits_onlyI) (auto simp: alloc_top_def)

lemma emits_only_write_top: "emits_only P (write_top a d)"
  by (rule emits_onlyI) (auto simp: write_top_def)

lemma emits_only_write_sub: "emits_only P (write_sub a d)"
  by (rule emits_onlyI) (auto simp: write_sub_def)

lemmas emits_intros = emits_only_ret emits_only_raise emits_only_lift emits_only_bnd
  emits_only_read_top emits_only_read_sub emits_only_read_cfg_value emits_only_lookup_registry
  emits_only_alloc_sub emits_only_alloc_top emits_only_write_top emits_only_write_sub

lemma emits_only_copy_entries: "emits_only P (copy_entries memo es)"
proof (induction memo es rule: copy_entries.induct)
  case (2 memo k a es)
  show ?case
  proof (cases "map_of memo a")
    case None
    with "2.IH"(1) show ?thesis by (auto intro!: emits_intros)
  next
    case (Some b)
    with "2.IH"(2) show ?thesis by (auto intro!: emits_intros)
  qed
qed (auto intro!: emits_intros)

lemma emits_only_deepcopy: "emits_only P (deepcopy a)"
  unfolding deepcopy_def by (intro emits_intros emits_only_copy_entries)

lemma emits_only_get_model_config: "emits_only P (get_model_config n)"
  unfolding get_model_config_def
  by (intro emits_intros) (simp add: emits_intros emits_only_deepcopy split: option.split)

lemma emits_only_py_in: "emits_only P (py_in k x)"
  unfolding py_in_def
  by (simp add: emits_intros split: val.split scalar.split)

lemma emits_only_get_item: "emits_only P (get_item x k)"
  unfolding get_item_def
  by (auto intro!: emits_intros split: val.split option.split)

lemma emits_only_get_method: "emits_only P (get_method x k d)"
  unfolding get_method_def
  by (auto intro!: emits_intros split: val.split option.split)

lemma emits_only_set_item: "emits_only P (set_item x k j)"
  unfolding set_item_def
  by (auto intro!: emits_intros split: val.split)

lemma emits_only_cfg_get_item: "emits_only P (cfg_get_item c k)"
  unfolding cfg_get_item_def
  by (auto intro!: emits_intros split: option.split)

lemma emits_only_cfg_set_item: "emits_only P (cfg_set_item c k v)"
  unfolding cfg_set_item_def by (intro emits_intros)

lemma emits_only_cfg_get_or_empty: "emits_only P (cfg_get_or_empty c k)"
  unfolding cfg_get_or_empty_def
  by (auto intro!: emits_intros split: option.split)

lemma emits_only_cfg_pop: "emits_only P (cfg_pop c k)"
  unfolding cfg_pop_def
  by (auto intro!: emits_intros split: option.split)

lemma emits_only_truthy: "emits_only P (truthy v)"
  unfolding truthy_def
  by (auto intro!: emits_intros split: val.split scalar.split)

lemmas emits_store = emits_only_py_in emits_only_get_item emits_only_get_method
  emits_only_set_item emits_only_cfg_get_item emits_only_cfg_set_item
  emits_only_cfg_get_or_empty emits_only_cfg_pop emits_only_get_model_config
  emits_only_truthy

lemma is_resolve_simp: "is_resolve (EvResolveCfg n)"
  by (simp add: is_resolve_def)

lemma emits_only_get_cfg: "emits_only is_resolve (get_cfg_and_handle_error n)"
  unfolding get_cfg_and_handle_error_def
  by (auto intro!: emits_intros emits_store emits_only_emit is_resolve_simp split: option.split)

lemma emits_only_get_cfg_of_json: "emits_only is_resolve (get_cfg_of_json env j)"
  unfolding get_cfg_of_json_def
  by (auto intro!: emits_intros emits_only_get_cfg split: json.split scalar.split)

lemma emits_only_prepare_image_tower:
  "emits_only is_resolve (prepare_image_tower env n c v)"
  unfolding prepare_image_tower_def
  by (auto intro!: emits_intros emits_store emits_only_get_cfg_of_json)

lemma emits_only_prepare_cfg:
  "emits_only is_resolve (prepare_cfg env n c fq fp pim fc ph)"
  unfolding prepare_cfg_def
  by (auto intro!: emits_intros emits_store emits_only_prepare_image_tower
        split: option.split)

lemma emits_only_load_and_prepare_cfg:
  "emits_only is_resolve (load_and_prepare_cfg env n fq fp pim fc ph)"
  unfolding load_and_prepare_cfg_def
  by (intro emits_intros emits_only_get_cfg emits_only_prepare_cfg)

lemma emits_onlyD:
  "emits_only P m \<Longrightarrow> m w = (r, w') \<Longrightarrow> \<exists>es. trace w' = trace w @ es \<and> (\<forall>e \<in> set es. P e)"
  by (simp add: emits_only_def)

lemma silentD:
  assumes "emits_only (\<lambda>_. False) m" and "m w = (r, w')"
  shows "trace w' = trace w"
  using emits_onlyD [OF assms] by auto

lemma get_cfg_trace:
  assumes "get_cfg_and_handle_error n w = (Inr c, w')"
  shows "trace w' = trace w @ [EvResolveCfg n]"
proof -
  from assms obtain x w1 where g: "get_model_config n w = (Inr x, w1)"
    and rest: "(case x of Some c \<Rightarrow> bnd (emit (EvResolveCfg n)) (\<lambda>_. ret c)
                | None \<Rightarrow> raise (RuntimeError (not_found_msg n))) w1 = (Inr c, w')"
    unfolding get_cfg_and_handle_error_def bnd_Inr by blast
  have "trace w1 = trace w" by (rule silentD [OF emits_only_get_model_config g])
  with rest show ?thesis
    by (cases x) (auto simp: monad_defs)
qed

lemma load_and_prepare_cfg_trace:
  assumes "load_and_prepare_cfg env n fq fp pim fc ph w = (Inr x, w')"
  shows "\<exists>es. trace w' = trace w @ EvResolveCfg n # es \<and> (\<forall>e \<in> set es. is_resolve e)"
proof -
  from assms obtain c w1 where g: "get_cfg_and_handle_error n w = (Inr c, w1)"
    and p: "prepare_cfg env n c fq fp pim fc ph w1 = (Inr x, w')"
    unfolding load_and_prepare_cfg_def bnd_Inr by blast
  from emits_onlyD [OF emits_only_prepare_cfg p] obtain es
    where "trace w' = trace w1 @ es" and "\<forall>e \<in> set es. is_resolve e" by blast
  with get_cfg_trace [OF g] show ?thesis by simp
qed

lemma extract_openai_silent: "emits_only (\<lambda>_. False) (extract_openai j)"
  unfolding extract_openai_def
  by (auto intro!: emits_intros split: json.split scalar.split)

lemma extract_openai_run:
  "extract_openai j w = (r, w') \<Longrightarrow> w' = w"
  by (auto simp: extract_openai_def ret_def raise_def split: json.splits scalar.splits)

lemma resolve_config_Inr:
  "resolve_config env args w = (Inr (n, c, ct, wj, ws, ex, dev), w1) \<longleftrightarrow>
     to_torch_device env (arg_device args) = Inr dev
     \<and> load_and_prepare_cfg env (replace_slash (arg_model_name args))
            (arg_force_quick_gelu args) (arg_force_patch_dropout args)
            (arg_pretrained_image args) (arg_force_custom_text args) (arg_pretrained_hf args) w
         = (Inr (n, c, ct, wj), w1)
     \<and> extract_openai wj w1 = (Inr (ws, ex), w1)"
  unfolding resolve_config_def
  by (auto simp: bnd_Inr lift_def ret_def dest: extract_openai_run split: prod.splits)

lemma resolve_config_trace:
  assumes "resolve_config env args w = (Inr x, w')"
  shows "\<exists>es. trace w' = trace w @ EvResolveCfg (replace_slash (arg_model_name args)) # es
              \<and> (\<forall>e \<in> set es. is_resolve e)"
proof -
  obtain n c ct wj ws ex dev where x: "x = (n, c, ct, wj, ws, ex, dev)" by (cases x) auto
  from assms have "load_and_prepare_cfg env (replace_slash (arg_model_name args))
            (arg_force_quick_gelu args) (arg_force_patch_dropout args)
            (arg_pretrained_image args) (arg_force_custom_text args) (arg_pretrained_hf args) w
         = (Inr (n, c, ct, wj), w')"
    by (simp add: x resolve_config_Inr)
  then show ?thesis by (rule load_and_prepare_cfg_trace)
qed

lemma call_load_openai_trace:
  "call_load_openai env n dev args w = (r, w') \<Longrightarrow> trace w' = trace w @ [EvLoadOpenAI n]"
  by (auto simp: call_load_openai_def monad_defs)

lemma call_load_openai_Inr:
  "call_load_openai env n dev args w = (Inr om, w') \<Longrightarrow>
   load_openai_model env n (arg_precision args) dev (arg_jit args) (arg_cache_dir args) = Inr om"
  by (auto simp: call_load_openai_def monad_defs)

lemma instantiate_trace:
  "instantiate env c ct dt w = (r, w') \<Longrightarrow>
   trace w' = trace w @ [EvInstantiate (if ct then CustomTextCLIP else CLIP)]"
  by (auto simp: instantiate_def read_cfg_value_def monad_defs)

lemma instantiate_Inr:
  "instantiate env c ct dt w = (Inr m0, w') \<Longrightarrow>
   (if ct then new_CustomTextCLIP env (cfg_value w c) dt else new_CLIP env (cfg_value w c) dt)
     = Inr m0"
  by (auto simp: instantiate_def read_cfg_value_def monad_defs split: if_splits)

text \<open>The checkpoint path of lines 230-238, for a \<open>pretrained\<close> that is set, outside the
  OpenAI paths.\<close>

lemma find_checkpoint_Inr:
  assumes "find_checkpoint env n pre ex cd w = (Inr (pc, cp), w')"
  shows "(if ex \<or> \<not> str_truthy pre then pc = [] \<and> cp = None \<and> trace w' = trace w
          else \<exists>p. pre = Some p \<and> pc = get_pretrained_cfg env n p
                 \<and> (if pc \<noteq> []
                     then (\<exists>path. download_pretrained env pc cd = Inr path \<and> cp = Some path)
                          \<and> trace w' = trace w @ [EvDownload]
                     else cp = (if path_exists env p then Some p else None)
                          \<and> trace w' = trace w))"
  using assms
  by (auto simp: find_checkpoint_def str_truthy_def monad_defs Let_def
        split: option.splits if_splits sum.splits)

lemma load_weights_Inr:
  assumes "load_weights env m0 n pre cp ex wj tower w = (Inr m1, w')"
  shows "(if str_truthy cp \<or> ex
          then (\<exists>keys. load_checkpoint env m0 cp True wj tower = Inr (m1, keys))
               \<and> trace w' = trace w @ [EvLoadCheckpoint]
          else m1 = m0 \<and> \<not> str_truthy pre \<and> trace w' = trace w)"
  using assms
  by (auto simp: load_weights_def str_truthy_def monad_defs
        split: option.splits if_splits sum.splits prod.splits)

lemma finish_model_trace:
  "finish_model env m dev args pc w = (Inr m', w') \<Longrightarrow>
   trace w' = trace w @ [EvToDevice dev] @ cast_events (arg_precision args)
              @ (if arg_jit args then [EvJit] else [])"
  by (auto simp: finish_model_def monad_defs Let_def cast_events_def
        split: option.splits if_splits sum.splits prod.splits)

lemma finish_model_result:
  assumes "finish_model env m dev args pc w = (Inr m', w')"
  shows "\<exists>m1 m2 mean std.
           model_to env m dev = Inr m1
         \<and> (if arg_precision args = ''fp16'' then convert_weights_to_lp env m1 Float16 = Inr m2
            else if arg_precision args = ''bf16''
                 then convert_weights_to_lp env m1 BFloat16 = Inr m2
                 else m2 = m1)
         \<and> (if arg_jit args
            then jit_script env (m2\<lparr>visual := (visual m2)\<lparr>image_mean := mean, image_std := std\<rparr>\<rparr>)
                   = Inr m'
            else m' = m2\<lparr>visual := (visual m2)\<lparr>image_mean := mean, image_std := std\<rparr>\<rparr>)"
  using assms
  by (auto simp: finish_model_def monad_defs Let_def
        split: option.splits if_splits sum.splits prod.splits)

lemma build_model_parts:
  assumes "build_model env args n c ct wj ws ex dev w = (Inr m, w')"
  obtains tower w1 m0 w2 pc cp w3 m1 w4 where
    "(if ex then bnd (call_load_openai env n dev args) (\<lambda>om. ret (Some (visual om)))
      else ret None) w = (Inr tower, w1)"
    "instantiate env c ct (get_cast_dtype env (arg_precision args)) w1 = (Inr m0, w2)"
    "find_checkpoint env n (case ws of Some t \<Rightarrow> Some t | None \<Rightarrow> arg_pretrained args) ex
       (arg_cache_dir args) w2 = (Inr (pc, cp), w3)"
    "load_weights env m0 n (case ws of Some t \<Rightarrow> Some t | None \<Rightarrow> arg_pretrained args) cp ex
       wj tower w3 = (Inr m1, w4)"
    "finish_model env m1 dev args pc w4 = (Inr m, w')"
  using assms unfolding build_model_def Let_def
  by (auto simp: bnd_Inr split: prod.splits)

lemma sub_at_trace: "sub_at (w\<lparr>trace := t\<rparr>) a = sub_at w a"
  by (simp add: sub_at_def)

lemma val_json_trace: "val_json (w\<lparr>trace := t\<rparr>) v = val_json w v"
  by (cases v) (simp_all add: val_json_def sub_at_trace)

lemma cfg_value_trace: "cfg_value (w\<lparr>trace := t\<rparr>) = cfg_value w"
  by (simp add: cfg_value_def top_at_def val_json_trace fun_eq_iff)

lemma tower_step:
  assumes "(if ex then bnd (call_load_openai env n dev args) (\<lambda>om. ret (Some (visual om)))
            else ret None) w = (Inr tower, w1)"
  shows "trace w1 = trace w @ (if ex then [EvLoadOpenAI n] else [])
         \<and> (if ex
            then \<exists>om. load_openai_model env n (arg_precision args) dev (arg_jit args)
                         (arg_cache_dir args) = Inr om \<and> tower = Some (visual om)
            else tower = None) \<and> cfg_value w1 = cfg_value w"
  using assms
  by (auto simp: bnd_Inr ret_def call_load_openai_def emit_def lift_def cfg_value_trace
        split: if_splits)

lemma build_model_trace:
  assumes "build_model env args n c ct wj ws ex dev w = (Inr m, w')"
  shows "\<exists>vendor downloaded loaded.
           trace w' = trace w @ vendor @ [EvInstantiate (if ct then CustomTextCLIP else CLIP)]
              @ downloaded @ loaded @ [EvToDevice dev]
              @ cast_events (arg_precision args) @ (if arg_jit args then [EvJit] else [])
         \<and> vendor = (if ex then [EvLoadOpenAI n] else [])
         \<and> (downloaded = [] \<or> downloaded = [EvDownload])
         \<and> (loaded = [] \<or> loaded = [EvLoadCheckpoint])"
proof -
  from assms obtain tower w1 m0 w2 pc cp w3 m1 w4 where
    t: "(if ex then bnd (call_load_openai env n dev args) (\<lambda>om. ret (Some (visual om)))
         else ret None) w = (Inr tower, w1)"
    and i: "instantiate env c ct (get_cast_dtype env (arg_precision args)) w1 = (Inr m0, w2)"
    and f: "find_checkpoint env n (case ws of Some t \<Rightarrow> Some t | None \<Rightarrow> arg_pretrained args)
              ex (arg_cache_dir args) w2 = (Inr (pc, cp), w3)"
    and l: "load_weights env m0 n (case ws of Some t \<Rightarrow> Some t | None \<Rightarrow> arg_pretrained args)
              cp ex wj tower w3 = (Inr m1, w4)"
    and fin: "finish_model env m1 dev args pc w4 = (Inr m, w')"
    by (rule build_model_parts)
  from tower_step [OF t] have 1: "trace w1 = trace w @ (if ex then [EvLoadOpenAI n] else [])"
    by simp
  note 2 = instantiate_trace [OF i]
  from find_checkpoint_Inr [OF f] obtain dl where
    dl: "trace w3 = trace w2 @ dl" "dl = [] \<or> dl = [EvDownload]"
    by (auto split: if_splits)
  from load_weights_Inr [OF l] obtain lc where
    lc: "trace w4 = trace w3 @ lc" "lc = [] \<or> lc = [EvLoadCheckpoint]"
    by (auto split: if_splits)
  note 5 = finish_model_trace [OF fin]
  have "trace w' = trace w @ (if ex then [EvLoadOpenAI n] else [])
           @ [EvInstantiate (if ct then CustomTextCLIP else CLIP)]
              @ dl @ lc @ [EvToDevice dev]
              @ cast_events (arg_precision args) @ (if arg_jit args then [EvJit] else [])"
    using 1 2 5 dl(1) lc(1) by simp
  with dl(2) lc(2) show ?thesis by blast
qed

lemma create_model_cases:
  assumes "create_model env args w = (Inr m, w')"
  obtains n c ct wj ws ex dev w1 where
    "resolve_config env args w = (Inr (n, c, ct, wj, ws, ex, dev), w1)"
    "is_pure_openai (arg_pretrained args) ex \<Longrightarrow>
       call_load_openai env n dev args w1 = (Inr m, w')"
    "\<not> is_pure_openai (arg_pretrained args) ex \<Longrightarrow>
       build_model env args n c ct wj ws ex dev w1 = (Inr m, w')"
  using assms unfolding create_model_def
  by (auto simp: bnd_Inr split: prod.splits if_splits)

section \<open>Claims about the steps of \<open>create_model\<close>\<close>

lemmas store_defs = top_at_def sub_at_def alloc_sub_def alloc_top_def write_top_def write_sub_def
  read_top_def read_sub_def read_cfg_value_def lookup_registry_def
  deepcopy_def get_model_config_def py_in_def get_item_def get_method_def set_item_def
  cfg_get_item_def cfg_set_item_def cfg_get_or_empty_def cfg_pop_def truthy_def dict_get_def
  dict_has_def val_json_def cfg_value_def
lemmas cfg_defs = get_cfg_and_handle_error_def get_cfg_of_json_def prepare_image_tower_def
  prepare_cfg_def load_and_prepare_cfg_def resolve_config_def extract_openai_def replace_slash_def
  to_torch_device_def
lemmas create_defs = create_model_def build_model_def call_load_openai_def instantiate_def
  find_checkpoint_def load_weights_def finish_model_def is_pure_openai_def str_truthy_def
  json_truthy_def py_or_def lower_def lower_char_def
lemmas example_defs = example_world_def example_args_def example_env_def example_model_def
  example_visual_def
lemmas ckpt_defs = load_checkpoint_def load_state_dict_def select_state_dict_def
  visual_entries_def dict_of_pairs_def startswith_def

lemma pure_openai_path_iff:
  "resolve_config env args w = (Inr (n, c, ct, wj, ws, ex, dev), w1) \<Longrightarrow>
   pure_openai_path env args w = is_pure_openai (arg_pretrained args) ex"
  by (simp add: pure_openai_path_def)

lemma build_model_result:
  assumes "build_model env args n c ct wj ws ex dev w = (Inr m, w')"
  shows "\<exists>m0 m1 m2 mean std.
           model_to env m0 dev = Inr m1
         \<and> (if arg_precision args = ''fp16'' then convert_weights_to_lp env m1 Float16 = Inr m2
            else if arg_precision args = ''bf16''
                 then convert_weights_to_lp env m1 BFloat16 = Inr m2
                 else m2 = m1)
         \<and> (if arg_jit args
            then jit_script env (m2\<lparr>visual := (visual m2)\<lparr>image_mean := mean, image_std := std\<rparr>\<rparr>)
                   = Inr m
            else m = m2\<lparr>visual := (visual m2)\<lparr>image_mean := mean, image_std := std\<rparr>\<rparr>)"
proof -
  from assms obtain m1 pc w4 where "finish_model env m1 dev args pc w4 = (Inr m, w')"
    by (rule build_model_parts)
  from finish_model_result [OF this] show ?thesis by blast
qed

lemma build_model_steps:
  assumes b: "build_model env args n c ct wj ws ex dev w = (Inr m, w')"
    and pre: "pre = (case ws of Some t \<Rightarrow> Some t | None \<Rightarrow> arg_pretrained args)"
  shows "\<exists>tower m0 pc cp m1 m2 m3 mean std.
     trace w' = trace w
        @ (if ex then [EvLoadOpenAI n] else [])
        @ [EvInstantiate (if ct then CustomTextCLIP else CLIP)]
        @ (if pc \<noteq> [] then [EvDownload] else [])
        @ (if ex \<or> str_truthy pre then [EvLoadCheckpoint] else [])
        @ [EvToDevice dev] @ cast_events (arg_precision args)
        @ (if arg_jit args then [EvJit] else [])
   \<and> (if ex
       then \<exists>om. load_openai_model env n (arg_precision args) dev (arg_jit args)
                    (arg_cache_dir args) = Inr om \<and> tower = Some (visual om)
       else tower = None)
   \<and> (if ct then new_CustomTextCLIP env (cfg_value w c) (get_cast_dtype env (arg_precision args))
       else new_CLIP env (cfg_value w c) (get_cast_dtype env (arg_precision args))) = Inr m0
   \<and> (if ex \<or> \<not> str_truthy pre then pc = [] \<and> cp = None
       else \<exists>p. pre = Some p \<and> pc = get_pretrained_cfg env n p
              \<and> (if pc \<noteq> []
                  then \<exists>path. download_pretrained env pc (arg_cache_dir args) = Inr path
                         \<and> cp = Some path
                  else path_exists env p \<and> cp = Some p))
   \<and> (if ex \<or> str_truthy pre
       then \<exists>keys. load_checkpoint env m0 cp True wj tower = Inr (m1, keys)
       else m1 = m0)
   \<and> model_to env m1 dev = Inr m2
   \<and> (if arg_precision args = ''fp16'' then convert_weights_to_lp env m2 Float16 = Inr m3
       else if arg_precision args = ''bf16''
            then convert_weights_to_lp env m2 BFloat16 = Inr m3
            else m3 = m2)
   \<and> (if arg_jit args
       then jit_script env (m3\<lparr>visual := (visual m3)\<lparr>image_mean := mean, image_std := std\<rparr>\<rparr>)
              = Inr m
       else m = m3\<lparr>visual := (visual m3)\<lparr>image_mean := mean, image_std := std\<rparr>\<rparr>)"
proof -
  from b obtain tower w1 m0 w2 pc cp w3 m1 w4 where
    t: "(if ex then bnd (call_load_openai env n dev args) (\<lambda>om. ret (Some (visual om)))
         else ret None) w = (Inr tower, w1)"
    and i: "instantiate env c ct (get_cast_dtype env (arg_precision args)) w1 = (Inr m0, w2)"
    and f: "find_checkpoint env n pre ex (arg_cache_dir args) w2 = (Inr (pc, cp), w3)"
    and l: "load_weights env m0 n pre cp ex wj tower w3 = (Inr m1, w4)"
    and fin: "finish_model env m1 dev args pc w4 = (Inr m, w')"
    unfolding pre by (rule build_model_parts)
  note ts = tower_step [OF t]
  from ts have t1: "trace w1 = trace w @ (if ex then [EvLoadOpenAI n] else [])"
    and tw: "if ex
       then \<exists>om. load_openai_model env n (arg_precision args) dev (arg_jit args)
                    (arg_cache_dir args) = Inr om \<and> tower = Some (visual om)
       else tower = None"
    and cv: "cfg_value w1 = cfg_value w" by simp_all
  note t2 = instantiate_trace [OF i]
  have inst:
    "(if ct then new_CustomTextCLIP env (cfg_value w c) (get_cast_dtype env (arg_precision args))
      else new_CLIP env (cfg_value w c) (get_cast_dtype env (arg_precision args))) = Inr m0"
    using instantiate_Inr [OF i] by (simp only: cv)
  note fc = find_checkpoint_Inr [OF f]
  note lw = load_weights_Inr [OF l]
  note t5 = finish_model_trace [OF fin]
  from finish_model_result [OF fin] obtain m2 m3 mean std where
    mt: "model_to env m1 dev = Inr m2"
    and cv3: "if arg_precision args = ''fp16'' then convert_weights_to_lp env m2 Float16 = Inr m3
       else if arg_precision args = ''bf16''
            then convert_weights_to_lp env m2 BFloat16 = Inr m3
            else m3 = m2"
    and jt: "if arg_jit args
       then jit_script env (m3\<lparr>visual := (visual m3)\<lparr>image_mean := mean, image_std := std\<rparr>\<rparr>)
              = Inr m
       else m = m3\<lparr>visual := (visual m3)\<lparr>image_mean := mean, image_std := std\<rparr>\<rparr>"
    by blast
  have req: "(str_truthy cp \<or> ex) = (ex \<or> str_truthy pre)"
    using fc lw by (auto simp: str_truthy_def split: if_splits)
  have t3: "trace w3 = trace w2 @ (if pc \<noteq> [] then [EvDownload] else [])"
    using fc by (auto split: if_splits)
  have t4: "trace w4 = trace w3 @ (if ex \<or> str_truthy pre then [EvLoadCheckpoint] else [])"
    using lw req by (auto split: if_splits)
  have tr: "trace w' = trace w
        @ (if ex then [EvLoadOpenAI n] else [])
        @ [EvInstantiate (if ct then CustomTextCLIP else CLIP)]
        @ (if pc \<noteq> [] then [EvDownload] else [])
        @ (if ex \<or> str_truthy pre then [EvLoadCheckpoint] else [])
        @ [EvToDevice dev] @ cast_events (arg_precision args)
        @ (if arg_jit args then [EvJit] else [])"
    using t1 t2 t3 t4 t5 by simp
  have ck: "if ex \<or> \<not> str_truthy pre then pc = [] \<and> cp = None
       else \<exists>p. pre = Some p \<and> pc = get_pretrained_cfg env n p
              \<and> (if pc \<noteq> []
                  then \<exists>path. download_pretrained env pc (arg_cache_dir args) = Inr path
                         \<and> cp = Some path
                  else path_exists env p \<and> cp = Some p)"
    using fc lw req by (auto simp: str_truthy_def split: if_splits)
  have ld: "if ex \<or> str_truthy pre
       then \<exists>keys. load_checkpoint env m0 cp True wj tower = Inr (m1, keys)
       else m1 = m0"
    using lw req by (auto split: if_splits)
  from tr tw inst ck ld mt cv3 jt show ?thesis by blast
qed

lemma example_tower_run:
  "\<exists>m w'. create_model example_env example_tower_args example_world = (Inr m, w')"
  by (simp add: example_tower_args_def example_defs monad_defs store_defs cfg_defs create_defs
      ckpt_defs)

lemma example_tower_not_pure:
  "\<not> pure_openai_path example_env example_tower_args example_world"
  by (simp add: pure_openai_path_def example_tower_args_def example_defs monad_defs store_defs
      cfg_defs create_defs)

text \<open>
  C2 (as amended). A call of \<open>create_model\<close> that returns a model and is not on the pure
  OpenAI path makes its steps in one fixed order. First the device is made a \<open>torch.device\<close>
  and the named config is resolved and prepared (one resolution, and one more for the config
  of a named image tower). Then, when the config asks for the image tower of an OpenAI model,
  that whole model is loaded by \<open>load_openai_model\<close>, before any network is instantiated,
  and its visual part is kept as the tower. Then the network is instantiated from the
  prepared config: \<open>CustomTextCLIP\<close> when \<open>custom_text\<close> holds, \<open>CLIP\<close> otherwise. Then
  the checkpoint is found (downloaded when \<open>pretrained\<close> is a known tag, taken as a path
  when it is an existing file) and the weights are loaded into the instantiated network:
  this happens exactly when the OpenAI tower is used or the effective \<open>pretrained\<close> (the
  image tower's when the config names one, the argument otherwise) is a non-empty string.
  Then the model so loaded is moved to the device, then the moved model is cast to
  float16 or bfloat16 when \<open>precision\<close> is \<open>fp16\<close> or \<open>bf16\<close>, and last the model is
  jit-wrapped exactly when \<open>jit\<close> is set; the model returned is the outcome of that last
  step.
\<close>

theorem create_model_step_order:
  assumes run: "create_model env args w = (Inr m, w')"
    and not_pure: "\<not> pure_openai_path env args w"
  shows "\<exists>n c ct wj ws ex dev w1 pre resolved tower m0 pc cp m1 m2 m3 mean std.
     resolve_config env args w = (Inr (n, c, ct, wj, ws, ex, dev), w1)
   \<and> pre = (case ws of Some t \<Rightarrow> Some t | None \<Rightarrow> arg_pretrained args)
   \<and> trace w1 = trace w @ resolved \<and> resolved \<noteq> [] \<and> (\<forall>e \<in> set resolved. is_resolve e)
   \<and> trace w' = trace w1
        @ (if ex then [EvLoadOpenAI n] else [])
        @ [EvInstantiate (if ct then CustomTextCLIP else CLIP)]
        @ (if pc \<noteq> [] then [EvDownload] else [])
        @ (if ex \<or> str_truthy pre then [EvLoadCheckpoint] else [])
        @ [EvToDevice dev] @ cast_events (arg_precision args)
        @ (if arg_jit args then [EvJit] else [])
   \<and> (if ex
       then \<exists>om. load_openai_model env n (arg_precision args) dev (arg_jit args)
                    (arg_cache_dir args) = Inr om \<and> tower = Some (visual om)
       else tower = None)
   \<and> (if ct then new_CustomTextCLIP env (cfg_value w1 c) (get_cast_dtype env (arg_precision args))
       else new_CLIP env (cfg_value w1 c) (get_cast_dtype env (arg_precision args))) = Inr m0
   \<and> (if ex \<or> \<not> str_truthy pre then pc = [] \<and> cp = None
       else \<exists>p. pre = Some p \<and> pc = get_pretrained_cfg env n p
              \<and> (if pc \<noteq> []
                  then \<exists>path. download_pretrained env pc (arg_cache_dir args) = Inr path
                         \<and> cp = Some path
                  else path_exists env p \<and> cp = Some p))
   \<and> (if ex \<or> str_truthy pre
       then \<exists>keys. load_checkpoint env m0 cp True wj tower = Inr (m1, keys)
       else m1 = m0)
   \<and> model_to env m1 dev = Inr m2
   \<and> (if arg_precision args = ''fp16'' then convert_weights_to_lp env m2 Float16 = Inr m3
       else if arg_precision args = ''bf16''
            then convert_weights_to_lp env m2 BFloat16 = Inr m3
            else m3 = m2)
   \<and> (if arg_jit args
       then jit_script env (m3\<lparr>visual := (visual m3)\<lparr>image_mean := mean, image_std := std\<rparr>\<rparr>)
              = Inr m
       else m = m3\<lparr>visual := (visual m3)\<lparr>image_mean := mean, image_std := std\<rparr>\<rparr>)"
proof -
  from run obtain n c ct wj ws ex dev w1 where
    r: "resolve_config env args w = (Inr (n, c, ct, wj, ws, ex, dev), w1)"
    and b: "\<not> is_pure_openai (arg_pretrained args) ex \<Longrightarrow>
              build_model env args n c ct wj ws ex dev w1 = (Inr m, w')"
    by (rule create_model_cases) blast
  from not_pure r have np: "\<not> is_pure_openai (arg_pretrained args) ex"
    by (simp add: pure_openai_path_iff)
  from resolve_config_trace [OF r] obtain es where
    rs: "trace w1 = trace w @ EvResolveCfg (replace_slash (arg_model_name args)) # es"
    and allr: "\<forall>e \<in> set es. is_resolve e" by blast
  let ?resolved = "EvResolveCfg (replace_slash (arg_model_name args)) # es"
  have res: "trace w1 = trace w @ ?resolved \<and> ?resolved \<noteq> []
             \<and> (\<forall>e \<in> set ?resolved. is_resolve e)"
    using rs allr by (simp add: is_resolve_def)
  from build_model_steps [OF b [OF np] refl] r res show ?thesis by blast
qed

theorem create_model_step_order_witness:
  "\<exists>m w'. create_model example_env example_tower_args example_world = (Inr m, w')
     \<and> \<not> pure_openai_path example_env example_tower_args example_world
     \<and> (\<exists>n c ct wj ws ex dev w1 pre resolved tower m0 pc cp m1 m2 m3 mean std.
           resolve_config example_env example_tower_args example_world
             = (Inr (n, c, ct, wj, ws, ex, dev), w1)
         \<and> pre = (case ws of Some t \<Rightarrow> Some t
                   | None \<Rightarrow> arg_pretrained example_tower_args)
         \<and> trace w1 = trace example_world @ resolved \<and> resolved \<noteq> []
         \<and> (\<forall>e \<in> set resolved. is_resolve e)
         \<and> trace w' = trace w1
              @ (if ex then [EvLoadOpenAI n] else [])
              @ [EvInstantiate (if ct then CustomTextCLIP else CLIP)]
              @ (if pc \<noteq> [] then [EvDownload] else [])
              @ (if ex \<or> str_truthy pre then [EvLoadCheckpoint] else [])
              @ [EvToDevice dev] @ cast_events (arg_precision example_tower_args)
              @ (if arg_jit example_tower_args then [EvJit] else [])
         \<and> (if ex
             then \<exists>om. load_openai_model example_env n (arg_precision example_tower_args) dev
                          (arg_jit example_tower_args) (arg_cache_dir example_tower_args) = Inr om
                        \<and> tower = Some (visual om)
             else tower = None)
         \<and> (if ct then new_CustomTextCLIP example_env (cfg_value w1 c)
                        (get_cast_dtype example_env (arg_precision example_tower_args))
             else new_CLIP example_env (cfg_value w1 c)
                        (get_cast_dtype example_env (arg_precision example_tower_args))) = Inr m0
         \<and> (if ex \<or> \<not> str_truthy pre then pc = [] \<and> cp = None
             else \<exists>p. pre = Some p \<and> pc = get_pretrained_cfg example_env n p
                    \<and> (if pc \<noteq> []
                        then \<exists>path. download_pretrained example_env pc
                                       (arg_cache_dir example_tower_args) = Inr path
                               \<and> cp = Some path
                        else path_exists example_env p \<and> cp = Some p))
         \<and> (if ex \<or> str_truthy pre
             then \<exists>keys. load_checkpoint example_env m0 cp True wj tower = Inr (m1, keys)
             else m1 = m0)
         \<and> model_to example_env m1 dev = Inr m2
         \<and> (if arg_precision example_tower_args = ''fp16''
             then convert_weights_to_lp example_env m2 Float16 = Inr m3
             else if arg_precision example_tower_args = ''bf16''
                  then convert_weights_to_lp example_env m2 BFloat16 = Inr m3
                  else m3 = m2)
         \<and> (if arg_jit example_tower_args
             then jit_script example_env
                    (m3\<lparr>visual := (visual m3)\<lparr>image_mean := mean, image_std := std\<rparr>\<rparr>) = Inr m
             else m = m3\<lparr>visual := (visual m3)\<lparr>image_mean := mean, image_std := std\<rparr>\<rparr>))"
proof -
  from example_tower_run obtain m w' where
    run: "create_model example_env example_tower_args example_world = (Inr m, w')" by blast
  note np = example_tower_not_pure
  show ?thesis
    by (rule exI [of _ m], rule exI [of _ w'])
       (intro conjI run np create_model_step_order [OF run np])
qed

text \<open>
  The shorter order (resolve, instantiate, load weights, move and cast, wrap) leaves out a
  step: for a config whose \<open>vision_cfg\<close> names the image tower of an OpenAI
  model, the call succeeds off the pure OpenAI path and loads the whole OpenAI model after
  the config is resolved and before the network is instantiated.
\<close>

theorem create_model_step_order_counterexample:
  "(let (r, w') = create_model example_env
        (example_args\<lparr>arg_model_name := ''openai-tower-ViT-B-32''\<rparr>) example_world
    in (\<exists>m. r = Inr m)
       \<and> trace w' = [EvResolveCfg ''openai-tower-ViT-B-32'', EvResolveCfg ''ViT-B-32'',
                      EvLoadOpenAI ''ViT-B-32'', EvInstantiate CLIP, EvLoadCheckpoint,
                      EvToDevice ''cpu''])
   \<and> \<not> pure_openai_path example_env
         (example_args\<lparr>arg_model_name := ''openai-tower-ViT-B-32''\<rparr>) example_world"
  by (simp add: pure_openai_path_def example_defs monad_defs store_defs cfg_defs create_defs
      ckpt_defs)

text \<open>
  C6. A call of \<open>create_model\<close> that returns a model and is not on the pure OpenAI path
  moves the model to the device and then, on the model so moved, converts the weights to
  float16 when \<open>precision\<close> is \<open>fp16\<close>, to bfloat16 when it is \<open>bf16\<close>, and converts
  nothing for any other \<open>precision\<close>. No conversion is made before the move: the only
  conversion event of the call is the one right after the move.
\<close>

theorem create_model_precision_cast:
  assumes run: "create_model env args w = (Inr m, w')"
    and not_pure: "\<not> pure_openai_path env args w"
  shows "\<exists>dev before m0 m1 m2 mean std.
           to_torch_device env (arg_device args) = Inr dev
         \<and> trace w' = trace w @ before @ [EvToDevice dev]
              @ (if arg_precision args = ''fp16'' then [EvConvertLP Float16]
                 else if arg_precision args = ''bf16'' then [EvConvertLP BFloat16] else [])
              @ (if arg_jit args then [EvJit] else [])
         \<and> (\<forall>e \<in> set before. \<not> is_convert e)
         \<and> model_to env m0 dev = Inr m1
         \<and> (if arg_precision args = ''fp16'' then convert_weights_to_lp env m1 Float16 = Inr m2
            else if arg_precision args = ''bf16''
                 then convert_weights_to_lp env m1 BFloat16 = Inr m2
                 else m2 = m1)
         \<and> (if arg_jit args
            then jit_script env (m2\<lparr>visual := (visual m2)\<lparr>image_mean := mean, image_std := std\<rparr>\<rparr>)
                   = Inr m
            else m = m2\<lparr>visual := (visual m2)\<lparr>image_mean := mean, image_std := std\<rparr>\<rparr>)"
proof -
  from run obtain n c ct wj ws ex dev w1 where
    r: "resolve_config env args w = (Inr (n, c, ct, wj, ws, ex, dev), w1)"
    and b: "\<not> is_pure_openai (arg_pretrained args) ex \<Longrightarrow>
              build_model env args n c ct wj ws ex dev w1 = (Inr m, w')"
    by (rule create_model_cases) blast
  from not_pure r have np: "\<not> is_pure_openai (arg_pretrained args) ex"
    by (simp add: pure_openai_path_iff)
  from r have dev: "to_torch_device env (arg_device args) = Inr dev"
    by (simp add: resolve_config_Inr)
  from build_model_trace [OF b [OF np]] obtain vendor downloaded loaded where
    t: "trace w' = trace w1 @ vendor @ [EvInstantiate (if ct then CustomTextCLIP else CLIP)]
              @ downloaded @ loaded @ [EvToDevice dev]
              @ cast_events (arg_precision args) @ (if arg_jit args then [EvJit] else [])"
    and v: "vendor = (if ex then [EvLoadOpenAI n] else [])"
    and d: "downloaded = [] \<or> downloaded = [EvDownload]"
    and l: "loaded = [] \<or> loaded = [EvLoadCheckpoint]" by blast
  from resolve_config_trace [OF r] obtain es where
    rs: "trace w1 = trace w @ EvResolveCfg (replace_slash (arg_model_name args)) # es"
    and allr: "\<forall>e \<in> set es. is_resolve e" by blast
  let ?before = "EvResolveCfg (replace_slash (arg_model_name args)) # es @ vendor
       @ [EvInstantiate (if ct then CustomTextCLIP else CLIP)] @ downloaded @ loaded"
  have 1: "trace w' = trace w @ ?before @ [EvToDevice dev]
              @ (if arg_precision args = ''fp16'' then [EvConvertLP Float16]
                 else if arg_precision args = ''bf16'' then [EvConvertLP BFloat16] else [])
              @ (if arg_jit args then [EvJit] else [])"
    using t rs by (simp add: cast_events_def)
  have "\<forall>e \<in> set es. \<not> is_convert e"
    using allr by (auto simp: is_resolve_def is_convert_def split: event.splits)
  then have 2: "\<forall>e \<in> set ?before. \<not> is_convert e"
    using v d l by (auto simp: is_convert_def)
  from build_model_result [OF b [OF np]] dev 1 2 show ?thesis by blast
qed

theorem create_model_precision_cast_witness:
  "\<exists>m w'. create_model example_env example_tower_args example_world = (Inr m, w')
     \<and> \<not> pure_openai_path example_env example_tower_args example_world
     \<and> (\<exists>dev before m0 m1 m2 mean std.
           to_torch_device example_env (arg_device example_tower_args) = Inr dev
         \<and> trace w' = trace example_world @ before @ [EvToDevice dev]
              @ (if arg_precision example_tower_args = ''fp16'' then [EvConvertLP Float16]
                 else if arg_precision example_tower_args = ''bf16'' then [EvConvertLP BFloat16]
                 else [])
              @ (if arg_jit example_tower_args then [EvJit] else [])
         \<and> (\<forall>e \<in> set before. \<not> is_convert e)
         \<and> model_to example_env m0 dev = Inr m1
         \<and> (if arg_precision example_tower_args = ''fp16''
            then convert_weights_to_lp example_env m1 Float16 = Inr m2
            else if arg_precision example_tower_args = ''bf16''
                 then convert_weights_to_lp example_env m1 BFloat16 = Inr m2
                 else m2 = m1)
         \<and> (if arg_jit example_tower_args
            then jit_script example_env
                   (m2\<lparr>visual := (visual m2)\<lparr>image_mean := mean, image_std := std\<rparr>\<rparr>) = Inr m
            else m = m2\<lparr>visual := (visual m2)\<lparr>image_mean := mean, image_std := std\<rparr>\<rparr>))"
proof -
  from example_tower_run obtain m w' where
    run: "create_model example_env example_tower_args example_world = (Inr m, w')" by blast
  note np = example_tower_not_pure
  show ?thesis
    by (rule exI [of _ m], rule exI [of _ w'])
       (intro conjI run np create_model_precision_cast [OF run np])
qed


section \<open>Claims about unknown pretrained weights\<close>

lemma find_checkpoint_none:
  assumes "get_pretrained_cfg env n p = []" and "\<not> path_exists env p"
  shows "find_checkpoint env n (Some p) po cd w = (Inr ([], None), w)"
  using assms by (simp add: find_checkpoint_def Let_def ret_def)

lemma load_weights_not_found:
  assumes "p \<noteq> []"
  shows "load_weights env m n (Some p) None False wj tower w
         = (Inl (RuntimeError (weights_not_found_msg env p n)), w)"
  using assms by (simp add: load_weights_def str_truthy_def raise_def)

lemma build_model_not_found:
  assumes i: "instantiate env c ct (get_cast_dtype env (arg_precision args)) w1 = (Inr m0, w2)"
    and p: "arg_pretrained args = Some p" "p \<noteq> []"
    and g: "get_pretrained_cfg env n p = []" and e: "\<not> path_exists env p"
  shows "build_model env args n c ct wj None False dev w1
         = (Inl (RuntimeError (weights_not_found_msg env p n)), w2)"
  by (simp add: build_model_def bnd_def ret_def i p(1) find_checkpoint_none [OF g e]
        load_weights_not_found [OF p(2)])

lemma example_bogus_resolve:
  "\<exists>c w1. resolve_config example_env (example_args\<lparr>arg_pretrained := Some ''bogus''\<rparr>)
             example_world = (Inr (''ViT-B-32'', c, False, Leaf SNull, None, False, ''cpu''), w1)
     \<and> (\<exists>m0 w2. instantiate example_env c False
            (get_cast_dtype example_env
               (arg_precision (example_args\<lparr>arg_pretrained := Some ''bogus''\<rparr>))) w1
          = (Inr m0, w2))"
  by (simp add: example_defs monad_defs store_defs cfg_defs create_defs)

text \<open>
  C5 (as amended). Let \<open>pretrained\<close> be a non-empty string that is not \<open>openai\<close> in any
  letter case and not an existing path. If the config resolves to model \<open>n\<close> with no
  pretrained image tower, the network is instantiated, and \<open>get_pretrained_cfg\<close> knows no
  such tag for \<open>n\<close>, then \<open>create_model\<close> raises \<open>RuntimeError\<close> with a message that
  lists the pretrained tags of \<open>n\<close>. \<open>create_model_from_pretrained\<close> rejects a
  \<open>pretrained\<close> that is neither a pretrained tag of the model name as passed nor an
  existing path before it does anything else, with a \<open>RuntimeError\<close> of its own wording.
\<close>

theorem unknown_pretrained_rejected:
  assumes no_path: "\<not> path_exists env p"
  shows "(arg_pretrained args = Some p \<and> p \<noteq> [] \<and> lower p \<noteq> ''openai''
          \<and> resolve_config env args w = (Inr (n, c, ct, Leaf SNull, None, False, dev), w1)
          \<and> instantiate env c ct (get_cast_dtype env (arg_precision args)) w1 = (Inr m0, w2)
          \<and> get_pretrained_cfg env n p = []
          \<longrightarrow> create_model env args w =
                (Inl (RuntimeError
                   (''Pretrained weights ('' @ p @ '') not found for model '' @ n
                    @ ''.Available pretrained tags (''
                    @ repr_list (list_pretrained_tags_by_model env n) @ ''.'')), w2))
       \<and> (\<not> is_pretrained_cfg env model_name p
          \<longrightarrow> create_model_from_pretrained env model_name p precision device jit force_quick_gelu
                  force_custom_text return_transform image_mean_arg image_std_arg cache_dir w0
                = (Inl (RuntimeError
                     (p @ '' is not a valid pretrained cfg or checkpoint for '' @ model_name
                      @ ''. Use open_clip.list_pretrained() to find one.'')), w0))"
proof (intro conjI impI)
  assume a: "arg_pretrained args = Some p \<and> p \<noteq> [] \<and> lower p \<noteq> ''openai''
          \<and> resolve_config env args w = (Inr (n, c, ct, Leaf SNull, None, False, dev), w1)
          \<and> instantiate env c ct (get_cast_dtype env (arg_precision args)) w1 = (Inr m0, w2)
          \<and> get_pretrained_cfg env n p = []"
  then have np: "\<not> is_pure_openai (arg_pretrained args) False"
    by (simp add: is_pure_openai_def)
  from a have b: "build_model env args n c ct (Leaf SNull) None False dev w1
         = (Inl (RuntimeError (weights_not_found_msg env p n)), w2)"
    by (intro build_model_not_found no_path) simp_all
  from a np b show "create_model env args w =
                (Inl (RuntimeError
                   (''Pretrained weights ('' @ p @ '') not found for model '' @ n
                    @ ''.Available pretrained tags (''
                    @ repr_list (list_pretrained_tags_by_model env n) @ ''.'')), w2)"
    by (simp add: create_model_def bnd_def weights_not_found_msg_def)
next
  assume "\<not> is_pretrained_cfg env model_name p"
  with no_path show "create_model_from_pretrained env model_name p precision device jit
       force_quick_gelu force_custom_text return_transform image_mean_arg image_std_arg
       cache_dir w0
     = (Inl (RuntimeError
                     (p @ '' is not a valid pretrained cfg or checkpoint for '' @ model_name
                      @ ''. Use open_clip.list_pretrained() to find one.'')), w0)"
    by (simp add: create_model_from_pretrained_def raise_def not_valid_msg_def)
qed

theorem unknown_pretrained_rejected_witness:
  "fst (create_model example_env (example_args\<lparr>arg_pretrained := Some ''bogus''\<rparr>)
          example_world)
     = Inl (RuntimeError (''Pretrained weights (bogus) not found for model ViT-B-32''
          @ ''.Available pretrained tags ('' @ repr_list [''openai'', ''laion400m_e32''] @ ''.''))
   \<and> create_model_from_pretrained example_env ''ViT-B-32'' ''bogus'' ''fp32'' (DeviceStr ''cpu'')
        False
        False False True (Leaf SNull) (Leaf SNull) None example_world
     = (Inl (RuntimeError
          ''bogus is not a valid pretrained cfg or checkpoint for ViT-B-32. Use open_clip.list_pretrained() to find one.''),
        example_world)"
proof -
  let ?args = "example_args\<lparr>arg_pretrained := Some ''bogus''\<rparr>"
  from example_bogus_resolve obtain c w1 m0 w2 where
    r: "resolve_config example_env ?args example_world
          = (Inr (''ViT-B-32'', c, False, Leaf SNull, None, False, ''cpu''), w1)"
    and i: "instantiate example_env c False
              (get_cast_dtype example_env (arg_precision ?args)) w1 = (Inr m0, w2)"
    by blast
  have np: "\<not> path_exists example_env ''bogus''" by (simp add: example_env_def)
  have h: "arg_pretrained ?args = Some ''bogus'' \<and> ''bogus'' \<noteq> [] \<and> lower ''bogus'' \<noteq> ''openai''
          \<and> resolve_config example_env ?args example_world
              = (Inr (''ViT-B-32'', c, False, Leaf SNull, None, False, ''cpu''), w1)
          \<and> instantiate example_env c False
              (get_cast_dtype example_env (arg_precision ?args)) w1 = (Inr m0, w2)
          \<and> get_pretrained_cfg example_env ''ViT-B-32'' ''bogus'' = []"
    using r i by (simp add: example_env_def lower_def lower_char_def)
  have q: "\<not> is_pretrained_cfg example_env ''ViT-B-32'' ''bogus''"
    by (simp add: example_env_def lower_def lower_char_def)
  from unknown_pretrained_rejected [OF np, of ?args example_world "''ViT-B-32''" c False
      "''cpu''" w1 m0 w2
      "''ViT-B-32''" "''fp32''" "DeviceStr ''cpu''" False False False True "Leaf SNull" "Leaf SNull" None
      example_world] h q
  show ?thesis by (simp add: example_env_def)
qed

theorem unknown_pretrained_counterexample:
  "get_pretrained_cfg example_env ''roberta-ViT-B-32'' ''OpenAI'' = []
   \<and> \<not> path_exists example_env ''OpenAI''
   \<and> (let (r, w') = create_model example_env
          (example_args\<lparr>arg_model_name := ''roberta-ViT-B-32'', arg_pretrained := Some ''OpenAI''\<rparr>)
          example_world
      in r = load_openai_model example_env ''roberta-ViT-B-32'' ''fp32'' ''cpu'' False None
         \<and> r = Inl (RuntimeError (''Model roberta-ViT-B-32 not found; available models = ''
                   @ repr_list [''RN50'', ''ViT-B-32'']))
         \<and> trace w' = [EvResolveCfg ''roberta-ViT-B-32'', EvLoadOpenAI ''roberta-ViT-B-32''])"
  by (simp add: example_defs monad_defs store_defs cfg_defs create_defs)

section \<open>Claims about \<open>create_model_and_transforms\<close>\<close>

lemma example_transforms_run:
  "\<exists>m pt pv w'. create_model_and_transforms example_env example_args
      (JArr [Leaf (SNum 0.5)]) (Leaf SNull) example_world = (Inr (m, pt, pv), w')"
  by (simp add: create_model_and_transforms_def example_defs monad_defs store_defs cfg_defs
      create_defs)

text \<open>
  C7 (as amended). A call of \<open>create_model_and_transforms\<close> that succeeds returns the
  model of \<open>create_model\<close> and two transforms built by \<open>image_transform\<close> from the same
  \<open>model.visual.image_size\<close>, the same mean and the same std, the first with
  \<open>is_train\<close> true and the second with \<open>is_train\<close> false. The mean (the std) is the
  caller's when that is given and true as a Python value (a non-empty tuple), and the
  model's \<open>visual.image_mean\<close> (\<open>visual.image_std\<close>) otherwise.
\<close>

theorem create_model_and_transforms_result:
  assumes "create_model_and_transforms env args image_mean_arg image_std_arg w
           = (Inr (m, preprocess_train, preprocess_val), w')"
  shows "\<exists>w1 mean std.
           create_model env args w = (Inr m, w1)
         \<and> mean = (if json_truthy image_mean_arg then image_mean_arg else image_mean (visual m))
         \<and> std = (if json_truthy image_std_arg then image_std_arg else image_std (visual m))
         \<and> image_transform env (image_size (visual m)) True mean std = Inr preprocess_train
         \<and> image_transform env (image_size (visual m)) False mean std = Inr preprocess_val"
  using assms unfolding create_model_and_transforms_def Let_def
  by (auto simp: bnd_Inr ret_def lift_def emit_def py_or_def)

theorem create_model_and_transforms_result_witness:
  "\<exists>m pt pv w'.
     create_model_and_transforms example_env example_args (JArr [Leaf (SNum 0.5)]) (Leaf SNull)
       example_world = (Inr (m, pt, pv), w')
     \<and> (\<exists>w1 mean std.
           create_model example_env example_args example_world = (Inr m, w1)
         \<and> mean = (if json_truthy (JArr [Leaf (SNum 0.5)]) then JArr [Leaf (SNum 0.5)]
                    else image_mean (visual m))
         \<and> std = (if json_truthy (Leaf SNull) then Leaf SNull else image_std (visual m))
         \<and> image_transform example_env (image_size (visual m)) True mean std = Inr pt
         \<and> image_transform example_env (image_size (visual m)) False mean std = Inr pv)"
proof -
  from example_transforms_run obtain m pt pv w' where
    run: "create_model_and_transforms example_env example_args (JArr [Leaf (SNum 0.5)])
            (Leaf SNull) example_world = (Inr (m, pt, pv), w')" by blast
  show ?thesis
    by (rule exI [of _ m], rule exI [of _ pt], rule exI [of _ pv], rule exI [of _ w'])
       (intro conjI run create_model_and_transforms_result [OF run])
qed

theorem create_model_and_transforms_counterexample:
  "(let env = example_env\<lparr>image_transform :=
        (\<lambda>size is_train mean std.
           Inr (Transform (if mean = OPENAI_DATASET_MEAN example_env then 1 else 0)))\<rparr>
    in map_sum id snd
         (fst (create_model_and_transforms env example_args (JArr []) (Leaf SNull) example_world)))
   = Inr (Transform 1, Transform 1)"
  by (simp add: create_model_and_transforms_def example_defs monad_defs store_defs cfg_defs
      create_defs)

section \<open>Facts about \<open>deepcopy\<close>\<close>

lemma copied_scalar: "copied w0 w' (k, VScalar s) (k, VScalar s)"
  by (simp add: copied_def val_json_def)

lemma copied_arr: "copied w0 w' (k, VArr xs) (k, VArr xs)"
  by (simp add: copied_def val_json_def)

lemma copy_entries_plain:
  assumes "copy_entries memo es w = (Inr es', w')" and "\<forall>a. v \<noteq> Sub a"
  shows "copy_entries memo ((k, v) # es) w = (Inr ((k, v) # es'), w')"
  using assms by (cases v) (simp_all add: bnd_def ret_def)

lemma copy_entries_ok:
  assumes "memo_ok N w memo" and "N \<le> length (subs w)" and "N \<le> length (subs w0)"
    and "\<forall>s<N. subs w ! s = subs w0 ! s"
    and "\<forall>k s. (k, Sub s) \<in> set es \<longrightarrow> s < N"
  shows "\<exists>es' new. copy_entries memo es w = (Inr es', w\<lparr>subs := subs w @ new\<rparr>)
           \<and> list_all2 (copied w0 (w\<lparr>subs := subs w @ new\<rparr>)) es es'"
  using assms
proof (induction es arbitrary: memo w)
  case Nil
  have "copy_entries memo [] w = (Inr [], w\<lparr>subs := subs w @ []\<rparr>)" by (simp add: ret_def)
  then show ?case by (metis list_all2_Nil)
next
  case (Cons e es)
  obtain k v where e: "e = (k, v)" by (cases e)
  have rest: "\<forall>k s. (k, Sub s) \<in> set es \<longrightarrow> s < N" using Cons.prems(5) by auto
  show ?case
  proof (cases "\<exists>a. v = Sub a")
    case False
    from Cons.IH [OF Cons.prems(1-4) rest] obtain es' new where
      run: "copy_entries memo es w = (Inr es', w\<lparr>subs := subs w @ new\<rparr>)"
      and rel: "list_all2 (copied w0 (w\<lparr>subs := subs w @ new\<rparr>)) es es'" by blast
    from False have nv: "\<forall>a. v \<noteq> Sub a" by blast
    have "copied w0 (w\<lparr>subs := subs w @ new\<rparr>) (k, v) (k, v)"
      using nv by (cases v) (simp_all add: copied_scalar copied_arr)
    with rel have "list_all2 (copied w0 (w\<lparr>subs := subs w @ new\<rparr>)) (e # es) ((k, v) # es')"
      by (simp add: e)
    with copy_entries_plain [OF run nv] show ?thesis unfolding e by blast
  next
    case True
    then obtain a where v: "v = Sub a" by blast
    have a: "a < N" using Cons.prems(5) by (auto simp: e v)
    show ?thesis
    proof (cases "map_of memo a")
      case (Some b)
      from Cons.IH [OF Cons.prems(1-4) rest] obtain es' new where
        run: "copy_entries memo es w = (Inr es', w\<lparr>subs := subs w @ new\<rparr>)"
        and rel: "list_all2 (copied w0 (w\<lparr>subs := subs w @ new\<rparr>)) es es'" by blast
      from Some have "(a, b) \<in> set memo" by (rule map_of_SomeD)
      with Cons.prems(1) have b: "b < length (subs w)" "subs w ! b = subs w ! a"
        by (auto simp: memo_ok_def)
      have "copied w0 (w\<lparr>subs := subs w @ new\<rparr>) (k, Sub a) (k, Sub b)"
        using a b Cons.prems(2,3,4)
        by (simp add: copied_def val_json_def sub_at_def nth_append)
      with rel have r2: "list_all2 (copied w0 (w\<lparr>subs := subs w @ new\<rparr>)) (e # es) ((k, Sub b) # es')"
        by (simp add: e v)
      have "copy_entries memo (e # es) w = (Inr ((k, Sub b) # es'), w\<lparr>subs := subs w @ new\<rparr>)"
        using run Some by (simp add: e v bnd_def ret_def)
      with r2 show ?thesis by blast
    next
      case None
      let ?d = "sub_at w a"
      let ?b = "length (subs w)"
      let ?w1 = "w\<lparr>subs := subs w @ [?d]\<rparr>"
      have d: "?d = subs w ! a" using a Cons.prems(2) by (simp add: sub_at_def)
      have m1: "memo_ok N ?w1 ((a, ?b) # memo)"
        using Cons.prems(1,2) a d by (auto simp: memo_ok_def nth_append)
      have n1: "N \<le> length (subs ?w1)" using Cons.prems(2) by simp
      have s1: "\<forall>s<N. subs ?w1 ! s = subs w0 ! s"
        using Cons.prems(2,4) by (simp add: nth_append)
      from Cons.IH [OF m1 n1 Cons.prems(3) s1 rest] obtain es' new where
        run: "copy_entries ((a, ?b) # memo) es ?w1 = (Inr es', ?w1\<lparr>subs := subs ?w1 @ new\<rparr>)"
        and rel: "list_all2 (copied w0 (?w1\<lparr>subs := subs ?w1 @ new\<rparr>)) es es'" by blast
      let ?w2 = "w\<lparr>subs := subs w @ (?d # new)\<rparr>"
      have w2: "?w1\<lparr>subs := subs ?w1 @ new\<rparr> = ?w2" by simp
      have "copied w0 ?w2 (k, Sub a) (k, Sub ?b)"
        using a d Cons.prems(2,3,4)
        by (simp add: copied_def val_json_def sub_at_def nth_append)
      with rel have r2: "list_all2 (copied w0 ?w2) (e # es) ((k, Sub ?b) # es')"
        by (simp add: e v w2)
      have "copy_entries memo (e # es) w = (Inr ((k, Sub ?b) # es'), ?w2)"
        using run None by (simp add: e v bnd_def ret_def read_sub_def alloc_sub_def w2)
      with r2 show ?thesis by blast
    qed
  qed
qed

lemma copied_map:
  "list_all2 (copied w w') es es' \<Longrightarrow>
   map (\<lambda>(k, v). (k, val_json w' v)) es' = map (\<lambda>(k, v). (k, val_json w v)) es"
  by (induction es es' rule: list_all2_induct) (auto simp: copied_def)

lemma copied_lookup_Some:
  "list_all2 (copied w w') es es' \<Longrightarrow> map_of es k = Some v \<Longrightarrow>
   \<exists>v'. map_of es' k = Some v' \<and> val_json w' v' = val_json w v"
  by (induction es es' rule: list_all2_induct) (auto simp: copied_def split: if_splits)

lemma copied_lookup_None:
  "list_all2 (copied w w') es es' \<Longrightarrow> map_of es k = None \<Longrightarrow> map_of es' k = None"
  by (induction es es' rule: list_all2_induct) (auto simp: copied_def split: if_splits)

lemma deepcopy_ok:
  assumes "cfg_ok w a"
  shows "\<exists>es' new. deepcopy a w
            = (Inr (length (tops w)), w\<lparr>subs := subs w @ new, tops := tops w @ [es']\<rparr>)
          \<and> list_all2 (copied w (w\<lparr>subs := subs w @ new\<rparr>)) (tops w ! a) es'"
proof -
  have top: "top_at w a = tops w ! a" using assms by (simp add: cfg_ok_def top_at_def)
  have "\<exists>es' new. copy_entries [] (tops w ! a) w = (Inr es', w\<lparr>subs := subs w @ new\<rparr>)
           \<and> list_all2 (copied w (w\<lparr>subs := subs w @ new\<rparr>)) (tops w ! a) es'"
    using assms by (intro copy_entries_ok [where N = "length (subs w)"])
      (auto simp: memo_ok_def cfg_ok_def)
  then obtain es' new where
    run: "copy_entries [] (tops w ! a) w = (Inr es', w\<lparr>subs := subs w @ new\<rparr>)"
    and rel: "list_all2 (copied w (w\<lparr>subs := subs w @ new\<rparr>)) (tops w ! a) es'" by blast
  have "deepcopy a w = (Inr (length (tops w)), w\<lparr>subs := subs w @ new, tops := tops w @ [es']\<rparr>)"
    using run by (simp add: deepcopy_def bnd_def read_top_def top alloc_top_def)
  with rel show ?thesis by blast
qed

lemma get_model_config_ok:
  assumes reg: "map_of (registry w) n = Some a" and ok: "cfg_ok w a"
  shows "\<exists>w1. get_model_config n w = (Inr (Some (length (tops w))), w1)
           \<and> cfg_value w1 (length (tops w)) = cfg_value w a
           \<and> registry w1 = registry w \<and> trace w1 = trace w
           \<and> length (tops w1) = Suc (length (tops w))
           \<and> (\<forall>k v. map_of (tops w ! a) k = Some v \<longrightarrow>
                 (\<exists>v'. map_of (top_at w1 (length (tops w))) k = Some v'
                       \<and> val_json w1 v' = val_json w v))
           \<and> (\<forall>k. map_of (tops w ! a) k = None \<longrightarrow>
                 map_of (top_at w1 (length (tops w))) k = None)"
proof -
  from deepcopy_ok [OF ok] obtain es' new where
    run: "deepcopy a w
            = (Inr (length (tops w)), w\<lparr>subs := subs w @ new, tops := tops w @ [es']\<rparr>)"
    and rel: "list_all2 (copied w (w\<lparr>subs := subs w @ new\<rparr>)) (tops w ! a) es'" by blast
  let ?w1 = "w\<lparr>subs := subs w @ new, tops := tops w @ [es']\<rparr>"
  have vj: "\<And>v. val_json ?w1 v = val_json (w\<lparr>subs := subs w @ new\<rparr>) v"
    by (simp add: val_json_def sub_at_def split: val.split)
  have ta: "top_at ?w1 (length (tops w)) = es'" by (simp add: top_at_def)
  have g: "get_model_config n w = (Inr (Some (length (tops w))), ?w1)"
    using reg run by (simp add: get_model_config_def lookup_registry_def bnd_def ret_def)
  have cv: "cfg_value ?w1 (length (tops w)) = cfg_value w a"
    using copied_map [OF rel] ok by (simp add: cfg_value_def ta vj top_at_def cfg_ok_def)
  have some: "\<forall>k v. map_of (tops w ! a) k = Some v \<longrightarrow>
                 (\<exists>v'. map_of es' k = Some v' \<and> val_json ?w1 v' = val_json w v)"
    unfolding vj using copied_lookup_Some [OF rel] by blast
  have none: "\<forall>k. map_of (tops w ! a) k = None \<longrightarrow> map_of es' k = None"
    using copied_lookup_None [OF rel] by blast
  from g cv some none show ?thesis by (intro exI [of _ ?w1]) (simp add: top_at_def)
qed

section \<open>Claims about \<open>get_tokenizer\<close>\<close>

lemma val_json_JObj: "val_json w v = JObj d \<Longrightarrow> \<exists>t. v = Sub t \<and> sub_at w t = d"
  by (cases v) (auto simp: val_json_def)

lemma get_tokenizer_on_copy:
  assumes "map_of (top_at w1 c) ''text_cfg'' = Some (Sub t')"
  shows "bnd (cfg_get_item c ''text_cfg'') (\<lambda>text_cfg.
           bnd (py_in ''hf_tokenizer_name'' text_cfg) (\<lambda>has.
             if has
             then bnd (get_item text_cfg ''hf_tokenizer_name'') (\<lambda>n.
                    lift (new_HFTokenizer env n))
             else ret Tokenize)) w1
         = ((case map_of (sub_at w1 t') ''hf_tokenizer_name'' of
               Some n \<Rightarrow> new_HFTokenizer env n | None \<Rightarrow> Inr Tokenize), w1)"
  using assms
  by (auto simp: cfg_get_item_def py_in_def get_item_def read_top_def read_sub_def bnd_def
        ret_def raise_def lift_def dict_get_def dict_has_def split: option.splits)

text \<open>
  C10 (as amended). For a model name that is not in the registry \<open>get_model_config\<close>
  returns \<open>None\<close> and \<open>get_tokenizer\<close> raises the \<open>TypeError\<close> of subscripting
  \<open>None\<close>. For a registered name whose config is well formed and whose \<open>text_cfg\<close> is a
  dict, \<open>get_tokenizer\<close> never subscripts \<open>None\<close>: when \<open>text_cfg\<close> has the key
  \<open>hf_tokenizer_name\<close> it calls the constructor \<open>HFTokenizer\<close> on the value under that
  key and returns the tokenizer it builds, or raises what the constructor raises; otherwise
  it returns \<open>tokenize\<close>.
\<close>

theorem get_tokenizer_registered:
  "(map_of (registry w) model_name = None \<longrightarrow>
      get_model_config model_name w = (Inr None, w)
      \<and> get_tokenizer env model_name w = (Inl TypeError, w))
   \<and> (map_of (registry w) model_name = Some a \<and> cfg_ok w a
       \<and> map_of (tops w ! a) ''text_cfg'' = Some (Sub t) \<longrightarrow>
      (\<exists>w1. get_tokenizer env model_name w =
          ((case map_of (sub_at w t) ''hf_tokenizer_name'' of
              Some n \<Rightarrow> new_HFTokenizer env n | None \<Rightarrow> Inr Tokenize), w1)))"
proof (intro conjI impI)
  assume u: "map_of (registry w) model_name = None"
  then show "get_model_config model_name w = (Inr None, w)"
    by (rule get_model_config_unregistered)
  from u show "get_tokenizer env model_name w = (Inl TypeError, w)"
    by (simp add: get_tokenizer_def bnd_def raise_def get_model_config_unregistered)
next
  assume r: "map_of (registry w) model_name = Some a \<and> cfg_ok w a
       \<and> map_of (tops w ! a) ''text_cfg'' = Some (Sub t)"
  then have reg: "map_of (registry w) model_name = Some a" and ok: "cfg_ok w a"
    and tc: "map_of (tops w ! a) ''text_cfg'' = Some (Sub t)" by simp_all
  let ?c = "length (tops w)"
  from get_model_config_ok [OF reg ok] obtain w1 where
    g: "get_model_config model_name w = (Inr (Some ?c), w1)"
    and look: "\<forall>k v. map_of (tops w ! a) k = Some v \<longrightarrow>
                 (\<exists>v'. map_of (top_at w1 ?c) k = Some v' \<and> val_json w1 v' = val_json w v)"
    by blast
  from look tc obtain v' where v': "map_of (top_at w1 ?c) ''text_cfg'' = Some v'"
    and vj: "val_json w1 v' = val_json w (Sub t)" by blast
  from vj have "val_json w1 v' = JObj (sub_at w t)" by (simp add: val_json_def)
  then obtain t' where t': "v' = Sub t'" and st: "sub_at w1 t' = sub_at w t"
    by (blast dest: val_json_JObj)
  have "get_tokenizer env model_name w =
          ((case map_of (sub_at w t) ''hf_tokenizer_name'' of
              Some n \<Rightarrow> new_HFTokenizer env n | None \<Rightarrow> Inr Tokenize), w1)"
    using g get_tokenizer_on_copy [of w1 ?c t' env] v' t' st
    by (simp add: get_tokenizer_def bnd_def)
  then show "\<exists>w1. get_tokenizer env model_name w =
          ((case map_of (sub_at w t) ''hf_tokenizer_name'' of
              Some n \<Rightarrow> new_HFTokenizer env n | None \<Rightarrow> Inr Tokenize), w1)" by blast
qed

theorem get_tokenizer_registered_witness:
  "get_tokenizer example_env ''ViT-B/32'' example_world = (Inl TypeError, example_world)
   \<and> (\<exists>w1. get_tokenizer example_env ''roberta-ViT-B-32'' example_world
             = (Inr (HFTokenizer (Leaf (SStr ''roberta-base''))), w1))
   \<and> (\<exists>w1. get_tokenizer example_env ''RN50'' example_world = (Inr Tokenize, w1))"
  using get_tokenizer_registered [of example_world "''ViT-B/32''" example_env 0 0]
    get_tokenizer_registered [of example_world "''roberta-ViT-B-32''" example_env 2 5]
    get_tokenizer_registered [of example_world "''RN50''" example_env 0 1]
  by (simp add: example_world_def example_env_def cfg_ok_def sub_at_def)

text \<open>
  A registered name alone does not promise a tokenizer. A registered config
  whose \<open>text_cfg\<close> is not a dict makes \<open>get_tokenizer\<close> raise \<open>TypeError\<close>, and so does
  a registered, well-formed config with \<open>hf_tokenizer_name\<close> when the constructor
  \<open>HFTokenizer\<close> raises: the error of the constructor is the result.
\<close>

theorem get_tokenizer_registered_counterexample:
  "(let w = \<lparr>registry = [(''odd'', 0)],
             tops = [[(''embed_dim'', VScalar (SNum 512)), (''vision_cfg'', Sub 0),
                      (''text_cfg'', VScalar (SNum 5))]],
             subs = [[(''image_size'', Leaf (SNum 224))]], trace = []\<rparr>
    in map_of (registry w) ''odd'' = Some 0
       \<and> map_of (top_at w 0) ''text_cfg'' = Some (VScalar (SNum 5))
       \<and> fst (get_tokenizer example_env ''odd'' w) = Inl TypeError)
   \<and> (let env = example_env\<lparr>new_HFTokenizer := (\<lambda>n. Inl (ExternalError ''HFTokenizer''))\<rparr>
      in map_of (registry example_world) ''roberta-ViT-B-32'' = Some 2
         \<and> cfg_ok example_world 2
         \<and> fst (get_tokenizer env ''roberta-ViT-B-32'' example_world)
             = Inl (ExternalError ''HFTokenizer''))"
  by (simp add: get_tokenizer_def get_model_config_def lookup_registry_def deepcopy_def
      read_top_def read_sub_def alloc_sub_def alloc_top_def top_at_def sub_at_def
      cfg_get_item_def py_in_def get_item_def dict_get_def dict_has_def bnd_def ret_def
      raise_def lift_def example_world_def example_env_def cfg_ok_def)

section \<open>Facts about the frame\<close>

lemma take_eq_length: "take n xs = ys \<Longrightarrow> length ys = n \<Longrightarrow> n \<le> length xs"
  by (metis length_take min.cobounded1 min_def order_refl)

lemma ext_lengths:
  "extends w0 w \<Longrightarrow> length (tops w0) \<le> length (tops w) \<and> length (subs w0) \<le> length (subs w)"
  unfolding extends_def by (metis length_take min.absorb_iff2 min.commute)

lemma frame_inv_refl: "frame_inv w w"
  by (auto simp: frame_inv_def extends_def fresh_closed_def)

lemma keeps_ret: "Q x \<Longrightarrow> keeps w0 Q (ret x)"
  by (simp add: keeps_def ret_def)

lemma keeps_raise: "keeps w0 Q (raise e)"
  by (simp add: keeps_def raise_def)

lemma keeps_lift: "keeps w0 (\<lambda>_. True) (lift r)"
  by (auto simp: keeps_def lift_def)

lemma keeps_emit: "keeps w0 (\<lambda>_. True) (emit e)"
  by (auto simp: keeps_def emit_def frame_inv_def extends_def fresh_closed_def)

lemma keeps_bnd:
  assumes "keeps w0 Q1 m" and "\<And>x. Q1 x \<Longrightarrow> keeps w0 Q2 (f x)"
  shows "keeps w0 Q2 (bnd m f)"
  unfolding keeps_def
proof (intro allI impI)
  fix w r w' assume i: "frame_inv w0 w" and run: "bnd m f w = (r, w')"
  obtain r1 w1 where m1: "m w = (r1, w1)" by (cases "m w")
  from assms(1) i m1 have i1: "frame_inv w0 w1" and q1: "\<forall>x. r1 = Inr x \<longrightarrow> Q1 x"
    unfolding keeps_def by blast+
  show "frame_inv w0 w' \<and> (\<forall>x. r = Inr x \<longrightarrow> Q2 x)"
  proof (cases r1)
    case (Inl e)
    with run m1 i1 show ?thesis by (auto simp: bnd_def)
  next
    case (Inr x)
    with run m1 have "f x w1 = (r, w')" by (simp add: bnd_def)
    with assms(2) [of x] q1 Inr i1 show ?thesis unfolding keeps_def by blast
  qed
qed

lemma keeps_weaken: "keeps w0 Q m \<Longrightarrow> (\<And>x. Q x \<Longrightarrow> Q' x) \<Longrightarrow> keeps w0 Q' m"
  unfolding keeps_def by blast

lemma keeps_any: "keeps w0 Q m \<Longrightarrow> keeps w0 (\<lambda>_. True) m"
  by (erule keeps_weaken) simp

lemma keeps_if:
  "keeps w0 Q a \<Longrightarrow> keeps w0 Q b \<Longrightarrow> keeps w0 Q (if c then a else b)"
  by simp

lemma fresh_dict_Nil: "fresh_dict w0 []"
  by (simp add: fresh_dict_def)

lemma keeps_read_top_any: "keeps w0 (\<lambda>_. True) (read_top a)"
  by (auto simp: keeps_def read_top_def)

lemma keeps_read_top:
  "length (tops w0) \<le> c \<Longrightarrow> keeps w0 (fresh_dict w0) (read_top c)"
  by (auto simp: keeps_def read_top_def top_at_def frame_inv_def fresh_closed_def
        fresh_dict_Nil)

lemma keeps_read_sub: "keeps w0 (\<lambda>_. True) (read_sub a)"
  by (auto simp: keeps_def read_sub_def)

lemma keeps_read_cfg_value: "keeps w0 (\<lambda>_. True) (read_cfg_value a)"
  by (auto simp: keeps_def read_cfg_value_def)

lemma keeps_lookup_registry: "keeps w0 (\<lambda>_. True) (lookup_registry n)"
  by (auto simp: keeps_def lookup_registry_def)

lemma keeps_alloc_sub: "keeps w0 (\<lambda>b. length (subs w0) \<le> b) (alloc_sub d)"
  unfolding keeps_def
proof (intro allI impI)
  fix w r w' assume i: "frame_inv w0 w" and run: "alloc_sub d w = (r, w')"
  from i have l: "length (subs w0) \<le> length (subs w)" by (simp add: frame_inv_def ext_lengths)
  from run have w': "w' = w\<lparr>subs := subs w @ [d]\<rparr>" and r: "r = Inr (length (subs w))"
    by (auto simp: alloc_sub_def)
  from i l have "frame_inv w0 w'" by (simp add: w' frame_inv_def extends_def fresh_closed_def)
  with l r show "frame_inv w0 w' \<and> (\<forall>x. r = Inr x \<longrightarrow> length (subs w0) \<le> x)" by simp
qed

lemma keeps_alloc_top:
  assumes "fresh_dict w0 d"
  shows "keeps w0 (\<lambda>c. length (tops w0) \<le> c) (alloc_top d)"
  unfolding keeps_def
proof (intro allI impI)
  fix w r w' assume i: "frame_inv w0 w" and run: "alloc_top d w = (r, w')"
  from i have l: "length (tops w0) \<le> length (tops w)" by (simp add: frame_inv_def ext_lengths)
  from run have w': "w' = w\<lparr>tops := tops w @ [d]\<rparr>" and r: "r = Inr (length (tops w))"
    by (auto simp: alloc_top_def)
  from i l assms have "frame_inv w0 w'"
    by (auto simp: w' frame_inv_def extends_def fresh_closed_def nth_append)
  with l r show "frame_inv w0 w' \<and> (\<forall>x. r = Inr x \<longrightarrow> length (tops w0) \<le> x)" by simp
qed

lemma keeps_write_top:
  assumes "length (tops w0) \<le> c" and "fresh_dict w0 d"
  shows "keeps w0 (\<lambda>_. True) (write_top c d)"
  unfolding keeps_def
proof (intro allI impI)
  fix w r w' assume i: "frame_inv w0 w" and run: "write_top c d w = (r, w')"
  from run have w': "w' = w\<lparr>tops := (tops w)[c := d]\<rparr>" by (auto simp: write_top_def)
  have "fresh_dict w0 ((tops w)[c := d] ! ca)"
    if "length (tops w0) \<le> ca" "ca < length (tops w)" for ca
    by (cases "ca = c") (use that i assms in \<open>auto simp: frame_inv_def fresh_closed_def\<close>)
  with i assms have "frame_inv w0 w'"
    by (simp add: w' frame_inv_def extends_def fresh_closed_def)
  then show "frame_inv w0 w' \<and> (\<forall>x. r = Inr x \<longrightarrow> True)" by simp
qed

lemma keeps_write_sub:
  assumes "length (subs w0) \<le> s"
  shows "keeps w0 (\<lambda>_. True) (write_sub s d)"
  unfolding keeps_def
proof (intro allI impI)
  fix w r w' assume i: "frame_inv w0 w" and run: "write_sub s d w = (r, w')"
  from run have w': "w' = w\<lparr>subs := (subs w)[s := d]\<rparr>" by (auto simp: write_sub_def)
  from i assms have "frame_inv w0 w'"
    by (auto simp: w' frame_inv_def extends_def fresh_closed_def)
  then show "frame_inv w0 w' \<and> (\<forall>x. r = Inr x \<longrightarrow> True)" by simp
qed

lemma fresh_dict_Cons:
  "fresh_dict w0 ((k, v) # d) \<longleftrightarrow> fresh_val w0 v \<and> fresh_dict w0 d"
  by (simp add: fresh_dict_def)

lemma set_dict_set: "set (dict_set d k v) \<subseteq> insert (k, v) (set d)"
  by (induction d) (auto split: if_splits)

lemma fresh_dict_set:
  "fresh_dict w0 d \<Longrightarrow> fresh_val w0 v \<Longrightarrow> fresh_dict w0 (dict_set d k v)"
  using set_dict_set [of d k v] by (fastforce simp: fresh_dict_def)

lemma fresh_dict_filter: "fresh_dict w0 d \<Longrightarrow> fresh_dict w0 (filter P d)"
  by (simp add: fresh_dict_def)

lemma fresh_dict_lookup:
  "fresh_dict w0 d \<Longrightarrow> map_of d k = Some v \<Longrightarrow> fresh_val w0 v"
  by (metis fresh_dict_def map_of_SomeD snd_conv)

lemma fresh_val_scalar: "fresh_val w0 (VScalar s)"
  by (simp add: fresh_val_def)

lemma fresh_val_Sub: "fresh_val w0 (Sub b) \<longleftrightarrow> length (subs w0) \<le> b"
  by (simp add: fresh_val_def)

lemma keeps_copy_entries:
  assumes "\<forall>e \<in> set memo. length (subs w0) \<le> snd e"
  shows "keeps w0 (fresh_dict w0) (copy_entries memo es)"
  using assms
proof (induction es arbitrary: memo)
  case Nil
  show ?case by (simp add: keeps_ret fresh_dict_Nil)
next
  case (Cons e es)
  obtain k v where e: "e = (k, v)" by (cases e)
  have tail: "keeps w0 (fresh_dict w0) (copy_entries memo es)" by (rule Cons.IH [OF Cons.prems])
  show ?case
  proof (cases v)
    case (VScalar s)
    have "keeps w0 (fresh_dict w0) (bnd (copy_entries memo es) (\<lambda>es'. ret ((k, v) # es')))"
      by (rule keeps_bnd [OF tail]) (simp add: keeps_ret fresh_dict_Cons VScalar fresh_val_def)
    then show ?thesis by (simp add: e VScalar)
  next
    case (VArr xs)
    have "keeps w0 (fresh_dict w0) (bnd (copy_entries memo es) (\<lambda>es'. ret ((k, v) # es')))"
      by (rule keeps_bnd [OF tail]) (simp add: keeps_ret fresh_dict_Cons VArr fresh_val_def)
    then show ?thesis by (simp add: e VArr)
  next
    case (Sub a)
    show ?thesis
    proof (cases "map_of memo a")
      case (Some b)
      then have "(a, b) \<in> set memo" by (rule map_of_SomeD)
      with Cons.prems have b: "length (subs w0) \<le> b" by force
      have "keeps w0 (fresh_dict w0)
              (bnd (copy_entries memo es) (\<lambda>es'. ret ((k, Sub b) # es')))"
        by (rule keeps_bnd [OF tail]) (simp add: keeps_ret fresh_dict_Cons fresh_val_Sub b)
      then show ?thesis by (simp add: e Sub Some)
    next
      case None
      have step: "\<And>b. length (subs w0) \<le> b \<Longrightarrow>
          keeps w0 (fresh_dict w0)
            (bnd (copy_entries ((a, b) # memo) es) (\<lambda>es'. ret ((k, Sub b) # es')))"
      proof -
        fix b assume b: "length (subs w0) \<le> b"
        have "keeps w0 (fresh_dict w0) (copy_entries ((a, b) # memo) es)"
          by (rule Cons.IH) (use Cons.prems b in auto)
        then show "keeps w0 (fresh_dict w0)
            (bnd (copy_entries ((a, b) # memo) es) (\<lambda>es'. ret ((k, Sub b) # es')))"
          by (rule keeps_bnd) (simp add: keeps_ret fresh_dict_Cons fresh_val_Sub b)
      qed
      have "keeps w0 (fresh_dict w0)
              (bnd (read_sub a) (\<lambda>d. bnd (alloc_sub d) (\<lambda>b.
                 bnd (copy_entries ((a, b) # memo) es) (\<lambda>es'. ret ((k, Sub b) # es')))))"
        by (rule keeps_bnd [OF keeps_read_sub], rule keeps_bnd [OF keeps_alloc_sub], rule step)
      then show ?thesis by (simp add: e Sub None)
    qed
  qed
qed

lemma keeps_deepcopy: "keeps w0 (\<lambda>c. length (tops w0) \<le> c) (deepcopy a)"
  unfolding deepcopy_def
  apply (rule keeps_bnd [OF keeps_read_top_any])
  apply (rule keeps_bnd [OF keeps_copy_entries])
   apply simp
  apply (erule keeps_alloc_top)
  done

lemma keeps_get_model_config:
  "keeps w0 (\<lambda>r. \<forall>c. r = Some c \<longrightarrow> length (tops w0) \<le> c) (get_model_config n)"
  unfolding get_model_config_def
  apply (rule keeps_bnd [OF keeps_lookup_registry])
  apply (simp split: option.split)
  apply (intro conjI allI impI)
   apply (rule keeps_ret, simp)
  apply (rule keeps_bnd [OF keeps_deepcopy])
  apply (rule keeps_ret, simp)
  done

lemma keeps_get_cfg:
  "keeps w0 (\<lambda>c. length (tops w0) \<le> c) (get_cfg_and_handle_error n)"
  unfolding get_cfg_and_handle_error_def
  apply (rule keeps_bnd [OF keeps_get_model_config])
  apply (simp split: option.split)
  apply (intro conjI allI impI)
   apply (rule keeps_raise)
  apply (rule keeps_bnd [OF keeps_emit])
  apply (rule keeps_ret, simp)
  done

lemma keeps_py_in: "keeps w0 (\<lambda>_. True) (py_in k x)"
  unfolding py_in_def
  by (auto split: val.split scalar.split
        intro!: keeps_bnd [OF keeps_read_sub] keeps_ret keeps_raise)

lemma keeps_get_item: "keeps w0 (\<lambda>_. True) (get_item x k)"
  unfolding get_item_def
  by (auto split: val.split option.split
        intro!: keeps_bnd [OF keeps_read_sub] keeps_ret keeps_raise)

lemma keeps_get_method: "keeps w0 (\<lambda>_. True) (get_method x k d)"
  unfolding get_method_def
  by (auto split: val.split option.split
        intro!: keeps_bnd [OF keeps_read_sub] keeps_ret keeps_raise)

lemma keeps_truthy: "keeps w0 (\<lambda>_. True) (truthy v)"
  unfolding truthy_def
  by (auto split: val.split scalar.split
        intro!: keeps_bnd [OF keeps_read_sub] keeps_ret keeps_raise)

lemma keeps_set_item: "fresh_val w0 v \<Longrightarrow> keeps w0 (\<lambda>_. True) (set_item v k j)"
  unfolding set_item_def
  by (auto split: val.split simp: fresh_val_Sub
        intro!: keeps_bnd [OF keeps_read_sub] keeps_write_sub keeps_raise)

lemma keeps_cfg_get_item:
  "length (tops w0) \<le> c \<Longrightarrow> keeps w0 (fresh_val w0) (cfg_get_item c k)"
  unfolding cfg_get_item_def
  by (rule keeps_bnd [OF keeps_read_top])
     (auto split: option.split simp: dict_get_def
        intro!: keeps_ret keeps_raise elim: fresh_dict_lookup)

lemma keeps_cfg_set_item:
  "length (tops w0) \<le> c \<Longrightarrow> fresh_val w0 v \<Longrightarrow> keeps w0 (\<lambda>_. True) (cfg_set_item c k v)"
  unfolding cfg_set_item_def
  by (rule keeps_bnd [OF keeps_read_top]) (auto intro!: keeps_write_top fresh_dict_set)

lemma keeps_cfg_get_or_empty:
  "length (tops w0) \<le> c \<Longrightarrow> keeps w0 (fresh_val w0) (cfg_get_or_empty c k)"
  unfolding cfg_get_or_empty_def
  by (rule keeps_bnd [OF keeps_read_top])
     (auto split: option.split simp: dict_get_def fresh_val_Sub
        intro!: keeps_ret keeps_bnd [OF keeps_alloc_sub] elim: fresh_dict_lookup)

lemma keeps_cfg_pop:
  "length (tops w0) \<le> c \<Longrightarrow> keeps w0 (fresh_val w0) (cfg_pop c k)"
  unfolding cfg_pop_def
  by (rule keeps_bnd [OF keeps_read_top])
     (auto split: option.split simp: dict_get_def fresh_val_scalar
        intro!: keeps_ret keeps_bnd [OF keeps_write_top] fresh_dict_filter
        elim: fresh_dict_lookup)

lemma keeps_get_cfg_of_json:
  "keeps w0 (\<lambda>x. length (tops w0) \<le> snd x) (get_cfg_of_json env j)"
  unfolding get_cfg_of_json_def
  by (auto split: json.split scalar.split
        intro!: keeps_bnd [OF keeps_get_cfg] keeps_ret keeps_raise)

lemma keeps_prepare_image_tower:
  assumes c: "length (tops w0) \<le> c"
  shows "keeps w0 (\<lambda>_. True) (prepare_image_tower env n c v)"
  unfolding prepare_image_tower_def
  apply (rule keeps_bnd [OF keeps_py_in])
  apply (rule keeps_if)
   apply (rule keeps_bnd [OF keeps_cfg_get_item [OF c]])
   apply (rule keeps_bnd [OF keeps_set_item], assumption)
   apply (rule keeps_ret, simp)
  apply (rule keeps_bnd [OF keeps_py_in])
  apply (rule keeps_if)
   apply (rule keeps_bnd [OF keeps_get_method])
   apply (rule keeps_bnd [OF keeps_get_cfg_of_json])
   apply (simp only: case_prod_beta)
   apply (rule keeps_bnd [OF keeps_get_method])
   apply (rule keeps_bnd [OF keeps_cfg_get_item], assumption)
   apply (rule keeps_bnd [OF keeps_cfg_set_item [OF c]], assumption)
   apply (rule keeps_ret, simp)
  apply (rule keeps_raise)
  done

lemma keeps_prepare_cfg:
  assumes c: "length (tops w0) \<le> c"
  shows "keeps w0 (\<lambda>_. True) (prepare_cfg env n c fq fp pim fc ph)"
  unfolding prepare_cfg_def
  apply (rule keeps_bnd [OF keeps_cfg_get_or_empty [OF c]])
  apply (rule keeps_bnd [where ?Q1.0 = "\<lambda>_. True"])
   apply (rule keeps_if)
    apply (rule keeps_ret, simp)
   apply (rule keeps_bnd [OF keeps_py_in])
   apply (rule keeps_if)
    apply (rule keeps_ret, simp)
   apply (rule keeps_py_in)
  apply (rule keeps_bnd [where ?Q1.0 = "\<lambda>_. True"])
   apply (rule keeps_if)
    apply (rule keeps_prepare_image_tower [OF c])
   apply (rule keeps_ret, simp)
  apply (simp only: case_prod_beta)
  apply (rule keeps_bnd [where ?Q1.0 = "\<lambda>_. True"])
   apply (rule keeps_if)
    apply (rule keeps_cfg_set_item [OF c], simp add: fresh_val_scalar)
   apply (rule keeps_ret, simp)
  apply (rule keeps_bnd [where ?Q1.0 = "\<lambda>_. True"])
   apply (cases fp)
    apply (simp add: keeps_ret)
   apply (simp)
   apply (rule keeps_bnd [OF keeps_cfg_get_item [OF c]])
   apply (erule keeps_set_item)
  apply (rule keeps_bnd [OF keeps_cfg_pop [OF c]])
  apply (rule keeps_bnd [where ?Q1.0 = "\<lambda>_. True"])
   apply (rule keeps_bnd [OF keeps_truthy])
   apply (rule keeps_if)
    apply (rule keeps_ret, simp)
   apply (rule keeps_bnd [OF keeps_cfg_get_or_empty [OF c]])
   apply (rule keeps_py_in)
  apply (rule keeps_bnd [where ?Q1.0 = "\<lambda>_. True"])
   apply (rule keeps_if)
    apply (rule keeps_bnd [where ?Q1.0 = "\<lambda>_. True"])
     apply (rule keeps_bnd [OF keeps_cfg_get_or_empty [OF c]])
     apply (rule keeps_py_in)
    apply (rule keeps_if)
     apply (rule keeps_bnd [OF keeps_cfg_get_item [OF c]])
     apply (erule keeps_set_item)
    apply (rule keeps_ret, simp)
   apply (rule keeps_ret, simp)
  apply (rule keeps_ret, simp)
  done

lemma keeps_load_and_prepare_cfg:
  "keeps w0 (\<lambda>_. True) (load_and_prepare_cfg env n fq fp pim fc ph)"
  unfolding load_and_prepare_cfg_def
  by (rule keeps_bnd [OF keeps_get_cfg]) (erule keeps_prepare_cfg)

section \<open>Claims about the registry\<close>

lemma keeps_of_same_store:
  assumes "\<And>w r w'. m w = (r, w') \<Longrightarrow>
             tops w' = tops w \<and> subs w' = subs w \<and> registry w' = registry w"
  shows "keeps w0 (\<lambda>_. True) m"
  unfolding keeps_def
proof (intro allI impI)
  fix w r w' assume i: "frame_inv w0 w" and run: "m w = (r, w')"
  from assms [OF run] i have "frame_inv w0 w'"
    by (simp add: frame_inv_def extends_def fresh_closed_def)
  then show "frame_inv w0 w' \<and> (\<forall>x. r = Inr x \<longrightarrow> True)" by simp
qed

lemma keeps_extract_openai: "keeps w0 (\<lambda>_. True) (extract_openai j)"
  unfolding extract_openai_def
  by (auto split: json.split scalar.split intro!: keeps_ret keeps_raise)

lemma keeps_resolve_config: "keeps w0 (\<lambda>_. True) (resolve_config env args)"
  unfolding resolve_config_def
  apply (rule keeps_bnd [OF keeps_lift])
  apply (rule keeps_bnd [OF keeps_load_and_prepare_cfg])
  apply (simp only: case_prod_beta)
  apply (rule keeps_bnd [OF keeps_extract_openai])
  apply (simp only: case_prod_beta)
  apply (rule keeps_ret, simp)
  done

lemma keeps_call_load_openai: "keeps w0 (\<lambda>_. True) (call_load_openai env n dev args)"
  by (rule keeps_of_same_store) (auto simp: call_load_openai_def monad_defs)

lemma keeps_instantiate: "keeps w0 (\<lambda>_. True) (instantiate env c ct dt)"
  unfolding instantiate_def
  by (intro keeps_bnd [OF keeps_read_cfg_value] keeps_if keeps_bnd [OF keeps_emit] keeps_lift)

lemma keeps_find_checkpoint: "keeps w0 (\<lambda>_. True) (find_checkpoint env n p po cd)"
  by (rule keeps_of_same_store)
     (auto simp: find_checkpoint_def monad_defs Let_def split: option.splits if_splits sum.splits)

lemma keeps_load_weights: "keeps w0 (\<lambda>_. True) (load_weights env m n p cp ex wj tower)"
  by (rule keeps_of_same_store)
     (auto simp: load_weights_def monad_defs
        split: option.splits if_splits sum.splits prod.splits)

lemma keeps_finish_model: "keeps w0 (\<lambda>_. True) (finish_model env m dev args pc)"
  by (rule keeps_of_same_store)
     (auto simp: finish_model_def monad_defs Let_def
        split: option.splits if_splits sum.splits prod.splits)

lemma keeps_build_model: "keeps w0 (\<lambda>_. True) (build_model env args n c ct wj ws ex dev)"
  unfolding build_model_def Let_def
  apply (rule keeps_bnd [where ?Q1.0 = "\<lambda>_. True"])
   apply (rule keeps_if)
    apply (rule keeps_bnd [OF keeps_call_load_openai])
    apply (rule keeps_ret, simp)
   apply (rule keeps_ret, simp)
  apply (rule keeps_bnd [OF keeps_instantiate])
  apply (rule keeps_bnd [OF keeps_find_checkpoint])
  apply (simp only: case_prod_beta)
  apply (rule keeps_bnd [OF keeps_load_weights])
  apply (rule keeps_finish_model)
  done

lemma keeps_create_model: "keeps w0 (\<lambda>_. True) (create_model env args)"
  unfolding create_model_def
  apply (rule keeps_bnd [OF keeps_resolve_config])
  apply (simp only: case_prod_beta)
  apply (rule keeps_if)
   apply (rule keeps_call_load_openai)
  apply (rule keeps_build_model)
  done

lemma keeps_frame:
  assumes "keeps w Q m" and "m w = (r, w')"
  shows "extends w w'"
  using assms frame_inv_refl [of w] unfolding keeps_def frame_inv_def by blast

lemma extends_nth:
  assumes "extends w w'"
  shows "a < length (tops w) \<Longrightarrow> tops w' ! a = tops w ! a"
    and "s < length (subs w) \<Longrightarrow> subs w' ! s = subs w ! s"
  using assms unfolding extends_def by (metis nth_take)+

lemma extends_cfg:
  assumes e: "extends w w'" and ok: "cfg_ok w a"
  shows "cfg_ok w' a" and "cfg_value w' a = cfg_value w a"
proof -
  from e have l: "length (tops w) \<le> length (tops w')" "length (subs w) \<le> length (subs w')"
    by (simp_all add: ext_lengths)
  from ok have a: "a < length (tops w)"
    and refs: "\<forall>k s. (k, Sub s) \<in> set (tops w ! a) \<longrightarrow> s < length (subs w)"
    by (simp_all add: cfg_ok_def)
  have t: "tops w' ! a = tops w ! a" by (rule extends_nth(1) [OF e a])
  show "cfg_ok w' a" using a l refs t by (fastforce simp: cfg_ok_def)
  have "val_json w' v = val_json w v" if "(k, v) \<in> set (tops w ! a)" for k v
  proof (cases v)
    case (Sub s)
    with that refs have "s < length (subs w)" by blast
    with extends_nth(2) [OF e this] l show ?thesis by (simp add: Sub val_json_def sub_at_def)
  qed (simp_all add: val_json_def)
  then show "cfg_value w' a = cfg_value w a"
    using a l t by (auto simp: cfg_value_def top_at_def)
qed

lemma example_world_ok:
  "\<forall>name a. map_of (registry example_world) name = Some a \<longrightarrow> cfg_ok example_world a"
  by (auto simp: example_world_def cfg_ok_def split: if_splits)


text \<open>
  C8. \<open>get_model_config\<close> returns a deep copy, so nothing \<open>create_model\<close> or
  \<open>load_and_prepare_cfg\<close> writes reaches the registry. Whatever the call does (it may
  raise), the registry maps the same names to the same addresses afterwards, and every config
  dict and nested dict that existed before the call is unchanged at its address. When the
  registered configs are well formed, the value of every registered config is therefore the
  same after the call, and \<open>get_model_config\<close> for a registered name returns, before the
  call and after it, a newly allocated config with the value of the registered one.
\<close>

theorem registry_unchanged:
  assumes step: "(\<exists>r. create_model env args w = (r, w'))
                 \<or> (\<exists>r. load_and_prepare_cfg env n fq fp pim fc ph w = (r, w'))"
    and ok: "\<forall>name a. map_of (registry w) name = Some a \<longrightarrow> cfg_ok w a"
  shows "registry w' = registry w
         \<and> take (length (tops w)) (tops w') = tops w
         \<and> take (length (subs w)) (subs w') = subs w
         \<and> (\<forall>name a. map_of (registry w) name = Some a \<longrightarrow>
               cfg_value w' a = cfg_value w a
               \<and> (\<exists>c1 w1 c2 w2.
                     get_model_config name w = (Inr (Some c1), w1)
                     \<and> get_model_config name w' = (Inr (Some c2), w2)
                     \<and> length (tops w) \<le> c1 \<and> length (tops w') \<le> c2
                     \<and> cfg_value w1 c1 = cfg_value w a
                     \<and> cfg_value w2 c2 = cfg_value w a))"
proof -
  from step have e: "extends w w'"
    by (auto intro: keeps_frame [OF keeps_create_model]
          keeps_frame [OF keeps_load_and_prepare_cfg])
  then have frame: "registry w' = registry w
         \<and> take (length (tops w)) (tops w') = tops w
         \<and> take (length (subs w)) (subs w') = subs w"
    by (simp add: extends_def)
  have copies: "cfg_value w' a = cfg_value w a
               \<and> (\<exists>c1 w1 c2 w2.
                     get_model_config name w = (Inr (Some c1), w1)
                     \<and> get_model_config name w' = (Inr (Some c2), w2)
                     \<and> length (tops w) \<le> c1 \<and> length (tops w') \<le> c2
                     \<and> cfg_value w1 c1 = cfg_value w a
                     \<and> cfg_value w2 c2 = cfg_value w a)"
    if reg: "map_of (registry w) name = Some a" for name a
  proof -
    from ok reg have oka: "cfg_ok w a" by blast
    note oka' = extends_cfg(1) [OF e oka] and same = extends_cfg(2) [OF e oka]
    from reg frame have reg': "map_of (registry w') name = Some a" by simp
    from get_model_config_ok [OF reg oka] obtain w1 where
      1: "get_model_config name w = (Inr (Some (length (tops w))), w1)"
      "cfg_value w1 (length (tops w)) = cfg_value w a" by blast
    from get_model_config_ok [OF reg' oka'] obtain w2 where
      2: "get_model_config name w' = (Inr (Some (length (tops w'))), w2)"
      "cfg_value w2 (length (tops w')) = cfg_value w' a" by blast
    from 1 2 same show ?thesis by auto
  qed
  from frame copies show ?thesis by blast
qed

theorem registry_unchanged_witness:
  "\<exists>w'. (\<exists>r. create_model example_env example_tower_args example_world = (r, w'))
     \<and> registry w' = registry example_world
     \<and> take (length (tops example_world)) (tops w') = tops example_world
     \<and> take (length (subs example_world)) (subs w') = subs example_world
     \<and> (\<forall>name a. map_of (registry example_world) name = Some a \<longrightarrow>
           cfg_value w' a = cfg_value example_world a
           \<and> (\<exists>c1 w1 c2 w2.
                 get_model_config name example_world = (Inr (Some c1), w1)
                 \<and> get_model_config name w' = (Inr (Some c2), w2)
                 \<and> length (tops example_world) \<le> c1 \<and> length (tops w') \<le> c2
                 \<and> cfg_value w1 c1 = cfg_value example_world a
                 \<and> cfg_value w2 c2 = cfg_value example_world a))"
proof -
  obtain r w' where
    run: "create_model example_env example_tower_args example_world = (r, w')"
    by (cases "create_model example_env example_tower_args example_world")
  then have step: "(\<exists>r. create_model example_env example_tower_args example_world = (r, w'))
      \<or> (\<exists>r. load_and_prepare_cfg example_env ''RN50'' False None False False True
                 example_world = (r, w'))" by blast
  show ?thesis
    by (rule exI [of _ w'], rule conjI, rule exI [of _ r], rule run)
       (rule registry_unchanged [OF step example_world_ok])
qed

end
